theory Spec2Isabelle
  imports Complex_Main "HOL-Library.Word"
begin

unbundle bit_operations_syntax

section \<open>The XSIG protocol engine of \<^verbatim>\<open>crestron_xsig/server.py\<close>\<close>

text \<open>
  The development embeds the class \<^verbatim>\<open>CrestronServer\<close>: the frame encoders of the three
  setters, the frame decoder of the read loop of \<^verbatim>\<open>handle_connection\<close>, the rate limiter, the
  callback dispatch and the getters. Python integers are \<^typ>\<open>int\<close>, wire bytes are
  \<^typ>\<open>8 word\<close>, a Python \<^verbatim>\<open>str\<close> that can carry arbitrary text is the list of its code
  points, and every \<^verbatim>\<open>raise\<close> is a value. Readings of \<^verbatim>\<open>time.time()\<close> are inputs of the
  operations and are compared in exact arithmetic.
\<close>

subsection \<open>Python values, strings, exceptions\<close>

type_synonym byte = "8 word"

type_synonym pystr = "nat list"

definition ascii :: "string \<Rightarrow> pystr" where
  "ascii cs = map of_char cs"

datatype exc_class =
    ValueError | ConnectionError | HomeAssistantError | StructError
  | IndexError | AttributeError | UnicodeError | OSError | HookError

text \<open>An exception: its class, the fixed part of its message, and its \<^verbatim>\<open>__cause__\<close>.\<close>

datatype exc = Exc exc_class string "exc option"

fun exc_class_of :: "exc \<Rightarrow> exc_class" where
  "exc_class_of (Exc c m cause) = c"

fun exc_cause :: "exc \<Rightarrow> exc option" where
  "exc_cause (Exc c m cause) = cause"

datatype pyval = PNone | PBool bool | PInt int | PStr pystr

text \<open>Python's \<^verbatim>\<open>==\<close> on the values a join can hold: \<^verbatim>\<open>bool\<close> is a subclass of \<^verbatim>\<open>int\<close>.\<close>

fun py_int :: "pyval \<Rightarrow> int option" where
  "py_int (PBool b) = Some (of_bool b)"
| "py_int (PInt i) = Some i"
| "py_int v = None"

definition py_eq :: "pyval \<Rightarrow> pyval \<Rightarrow> bool" where
  "py_eq a b = (case (py_int a, py_int b) of
                  (Some i, Some j) \<Rightarrow> i = j
                | (None, None) \<Rightarrow> a = b
                | _ \<Rightarrow> False)"

fun truthy :: "pyval \<Rightarrow> bool" where
  "truthy PNone = False"
| "truthy (PBool b) = b"
| "truthy (PInt i) = (i \<noteq> 0)"
| "truthy (PStr s) = (s \<noteq> [])"

text \<open>\<^verbatim>\<open>a or b\<close>\<close>

definition py_or :: "pyval \<Rightarrow> pyval \<Rightarrow> pyval" where
  "py_or a b = (if truthy a then a else b)"

text \<open>\<^verbatim>\<open>str(n)\<close> for an integer, and the f-string \<^verbatim>\<open>f"d{join}"\<close> of a join id.\<close>

definition digit_char :: "nat \<Rightarrow> char" where
  "digit_char d = ''0123456789'' ! d"

function str_nat :: "nat \<Rightarrow> string" where
  "str_nat n = (if n < 10 then [digit_char n] else str_nat (n div 10) @ [digit_char (n mod 10)])"
  by pat_completeness auto
termination
  by (relation "measure id") auto

declare str_nat.simps [simp del]

definition str_int :: "int \<Rightarrow> string" where
  "str_int i = (if i < 0 then CHR ''-'' # str_nat (nat (- i)) else str_nat (nat i))"

definition join_id :: "char \<Rightarrow> int \<Rightarrow> string" where
  "join_id t join = t # str_int join"

text \<open>
  \<^verbatim>\<open>str.encode()\<close>: UTF-8. A surrogate code point raises \<^verbatim>\<open>UnicodeEncodeError\<close>; a
  Python string holds no code point above \<^verbatim>\<open>0x10FFFF\<close>.
\<close>

definition encode_cp :: "nat \<Rightarrow> exc + byte list" where
  "encode_cp cp =
     (if cp < 0x80 then Inr [of_nat cp]
      else if cp < 0x800 then
        Inr [of_nat (0xC0 + cp div 64), of_nat (0x80 + cp mod 64)]
      else if 0xD800 \<le> cp \<and> cp \<le> 0xDFFF then
        Inl (Exc UnicodeError ''surrogates not allowed'' None)
      else if cp < 0x10000 then
        Inr [of_nat (0xE0 + cp div 4096), of_nat (0x80 + cp div 64 mod 64),
             of_nat (0x80 + cp mod 64)]
      else if cp \<le> 0x10FFFF then
        Inr [of_nat (0xF0 + cp div 262144), of_nat (0x80 + cp div 4096 mod 64),
             of_nat (0x80 + cp div 64 mod 64), of_nat (0x80 + cp mod 64)]
      else Inl (Exc UnicodeError ''not a code point'' None))"

fun encode :: "pystr \<Rightarrow> exc + byte list" where
  "encode [] = Inr []"
| "encode (cp # cps) =
     (case encode_cp cp of
        Inl e \<Rightarrow> Inl e
      | Inr bs \<Rightarrow> (case encode cps of Inl e \<Rightarrow> Inl e | Inr rest \<Rightarrow> Inr (bs @ rest)))"

text \<open>
  \<^verbatim>\<open>bytes.decode("utf-8")\<close>, strict: continuation bytes are \<^verbatim>\<open>10xxxxxx\<close>, and overlong
  forms, surrogates and values above \<^verbatim>\<open>0x10FFFF\<close> are rejected (\<open>None\<close>:
  \<^verbatim>\<open>UnicodeDecodeError\<close>).
\<close>

definition cont :: "nat \<Rightarrow> bool" where
  "cont b = (0x80 \<le> b \<and> b \<le> 0xBF)"

fun decode_cps :: "nat list \<Rightarrow> pystr option" where
  "decode_cps [] = Some []"
| "decode_cps (b # bs) =
     (if b < 0x80 then map_option ((#) b) (decode_cps bs)
      else if 0xC2 \<le> b \<and> b \<le> 0xDF then
        (case bs of
           c1 # r \<Rightarrow>
             if cont c1
             then map_option ((#) ((b - 0xC0) * 64 + (c1 - 0x80))) (decode_cps r)
             else None
         | _ \<Rightarrow> None)
      else if 0xE0 \<le> b \<and> b \<le> 0xEF then
        (case bs of
           c1 # c2 # r \<Rightarrow>
             if cont c1 \<and> cont c2 \<and> (b = 0xE0 \<longrightarrow> 0xA0 \<le> c1) \<and> (b = 0xED \<longrightarrow> c1 \<le> 0x9F)
             then map_option
                    ((#) ((b - 0xE0) * 4096 + (c1 - 0x80) * 64 + (c2 - 0x80))) (decode_cps r)
             else None
         | _ \<Rightarrow> None)
      else if 0xF0 \<le> b \<and> b \<le> 0xF4 then
        (case bs of
           c1 # c2 # c3 # r \<Rightarrow>
             if cont c1 \<and> cont c2 \<and> cont c3 \<and> (b = 0xF0 \<longrightarrow> 0x90 \<le> c1)
                \<and> (b = 0xF4 \<longrightarrow> c1 \<le> 0x8F)
             then map_option
                    ((#) ((b - 0xF0) * 262144 + (c1 - 0x80) * 4096 + (c2 - 0x80) * 64
                          + (c3 - 0x80))) (decode_cps r)
             else None
         | _ \<Rightarrow> None)
      else None)"

declare decode_cps.simps [simp del]

definition decode :: "byte list \<Rightarrow> pystr option" where
  "decode bs = decode_cps (map unat bs)"

subsection \<open>Constants\<close>

definition MAX_DIGITAL_JOIN :: int where "MAX_DIGITAL_JOIN = 65535"
definition MAX_ANALOG_JOIN :: int where "MAX_ANALOG_JOIN = 65535"
definition CMD_UPDATE_REQUEST :: "byte list" where "CMD_UPDATE_REQUEST = [0xFD]"
definition MAX_QUEUE_SIZE :: nat where "MAX_QUEUE_SIZE = 100"
definition MAX_JOIN_UPDATES :: nat where "MAX_JOIN_UPDATES = 1000"
definition JOIN_UPDATE_WINDOW :: real where "JOIN_UPDATE_WINDOW = 1"

subsection \<open>Frame codec\<close>

text \<open>\<^verbatim>\<open>struct.pack\<close> with format \<^verbatim>\<open>B\<close>: \<^verbatim>\<open>struct.error\<close> outside \<open>0..255\<close>.\<close>

definition pack_B :: "int \<Rightarrow> exc + byte" where
  "pack_B x = (if 0 \<le> x \<and> x \<le> 255 then Inr (word_of_int x)
               else Inl (Exc StructError ''ubyte format requires 0 <= number <= 255'' None))"

fun pack :: "int list \<Rightarrow> exc + byte list" where
  "pack [] = Inr []"
| "pack (x # xs) =
     (case pack_B x of
        Inl e \<Rightarrow> Inl e
      | Inr b \<Rightarrow> (case pack xs of Inl e \<Rightarrow> Inl e | Inr bs \<Rightarrow> Inr (b # bs)))"

text \<open>The bytes \<^verbatim>\<open>set_digital.send_command\<close> packs; \<^verbatim>\<open>~value\<close> of a bool is \<open>-1\<close> or \<open>-2\<close>.\<close>

definition digital_frame :: "int \<Rightarrow> bool \<Rightarrow> exc + byte list" where
  "digital_frame join v =
     pack [128 OR (push_bit 5 (NOT (of_bool v)) AND 32) OR drop_bit 7 (join - 1),
           (join - 1) AND 127]"

text \<open>The bytes \<^verbatim>\<open>set_analog.send_command\<close> packs.\<close>

definition analog_frame :: "int \<Rightarrow> int \<Rightarrow> exc + byte list" where
  "analog_frame join v =
     pack [192 OR (drop_bit 10 v AND 48) OR drop_bit 7 (join - 1),
           (join - 1) AND 127,
           drop_bit 7 v AND 127,
           v AND 127]"

text \<open>The bytes \<^verbatim>\<open>set_serial.send_command\<close> builds: header, encoded string, \<^verbatim>\<open>0xFF\<close>.\<close>

definition serial_frame :: "int \<Rightarrow> pystr \<Rightarrow> exc + byte list" where
  "serial_frame join string =
     (case pack [200 OR drop_bit 7 (join - 1), (join - 1) AND 127] of
        Inl e \<Rightarrow> Inl e
      | Inr hdr \<Rightarrow>
          (case encode string of
             Inl e \<Rightarrow> Inl e
           | Inr payload \<Rightarrow> Inr (hdr @ payload @ [0xFF])))"

text \<open>The decoding expressions of the read loop, on the unpacked header integers.\<close>

definition digital_join :: "int \<Rightarrow> int \<Rightarrow> int" where
  "digital_join h0 h1 = (push_bit 7 (h0 AND 31) OR h1) + 1"

definition digital_value :: "int \<Rightarrow> int" where
  "digital_value h0 = drop_bit 5 (NOT h0) AND 1"

definition analog_join :: "int \<Rightarrow> int \<Rightarrow> int" where
  "analog_join h0 h1 = (push_bit 7 (h0 AND 7) OR h1) + 1"

definition analog_value :: "int \<Rightarrow> int \<Rightarrow> int \<Rightarrow> int" where
  "analog_value h0 h2 h3 = push_bit 10 (h0 AND 48) OR push_bit 7 h2 OR h3"

text \<open>
  The tests of the \<^verbatim>\<open>if\<close>/\<^verbatim>\<open>elif\<close> chain,
  \<^verbatim>\<open>data[0] & mask == pattern and data[1] & 0b10000000 == 0\<close>: \<^verbatim>\<open>and\<close> reads \<^verbatim>\<open>data[1]\<close>
  only when the first comparison holds, and \<^verbatim>\<open>data[1]\<close> raises \<^verbatim>\<open>IndexError\<close> when the second
  read returned nothing.
\<close>

definition item :: "byte list \<Rightarrow> nat \<Rightarrow> exc + int" where
  "item data k = (if k < length data then Inr (uint (data ! k))
                  else Inl (Exc IndexError ''index out of range'' None))"

definition header_test :: "int \<Rightarrow> int \<Rightarrow> byte list \<Rightarrow> exc + bool" where
  "header_test msk pat data =
     (case item data 0 of
        Inl e \<Rightarrow> Inl e
      | Inr d0 \<Rightarrow>
          if d0 AND msk = pat
          then (case item data 1 of Inl e \<Rightarrow> Inl e | Inr d1 \<Rightarrow> Inr (d1 AND 128 = 0))
          else Inr False)"

datatype frame_kind = DigitalFrame | AnalogFrame | SerialFrame | NoFrame

definition frame_kind_of :: "byte list \<Rightarrow> exc + frame_kind" where
  "frame_kind_of data =
     (case header_test 192 128 data of
        Inl e \<Rightarrow> Inl e
      | Inr True \<Rightarrow> Inr DigitalFrame
      | Inr False \<Rightarrow>
          (case header_test 200 192 data of
             Inl e \<Rightarrow> Inl e
           | Inr True \<Rightarrow> Inr AnalogFrame
           | Inr False \<Rightarrow>
               (case header_test 248 200 data of
                  Inl e \<Rightarrow> Inl e
                | Inr True \<Rightarrow> Inr SerialFrame
                | Inr False \<Rightarrow> Inr NoFrame)))"

subsection \<open>Server state\<close>

text \<open>
  \<^verbatim>\<open>JoinState\<close>: \<^verbatim>\<open>__init__\<close> sets \<^verbatim>\<open>value = False\<close> in every table. Its \<^verbatim>\<open>callbacks\<close> and
  \<^verbatim>\<open>lock\<close> fields are never read by the server and are left out.
\<close>

record join_state =
  value' :: pyval
  last_update :: real
  update_count :: nat

definition JoinState :: join_state where
  "JoinState = \<lparr>value' = PBool False, last_update = 0, update_count = 0\<rparr>"

type_synonym join_table = "int \<rightharpoonup> join_state"

text \<open>A \<^verbatim>\<open>StreamWriter\<close>, as far as the server looks at it: \<^verbatim>\<open>is_closing()\<close>.\<close>

datatype writer = Writer (is_closing: bool)

text \<open>The closures \<^verbatim>\<open>send_command\<close> that the setters put on the queue.\<close>

datatype command = SendDigital int bool | SendAnalog int int | SendSerial int pystr

type_synonym cb = nat

text \<open>
  What the server does to the outside, in order: bytes handed to the writer, calls of
  \<^verbatim>\<open>_notify_callbacks\<close> (join id, value, the callbacks invoked), calls of the sync-all hook,
  and the closing of the writer.
\<close>

datatype effect =
    Written "byte list"
  | Notified string pystr "cb list"
  | SyncAllCalled cb
  | WriterClosed

text \<open>
  The fields of \<^verbatim>\<open>CrestronServer\<close> the modelled methods use. \<open>available_flag\<close> is
  \<^verbatim>\<open>_available\<close> (the property \<^verbatim>\<open>available\<close> is below); the other fields drop the leading
  underscore. A \<^verbatim>\<open>defaultdict(JoinState)\<close> is a partial map whose missing keys are created on
  access; \<^verbatim>\<open>defaultdict(list)\<close> is a total map to lists. A set of callbacks is the list of its
  members in iteration order.
\<close>

record server =
  writer :: "writer option"
  reader :: bool
  available_flag :: bool
  command_queue :: "command list"
  command_event :: bool
  digital :: join_table
  analog :: join_table
  serial :: join_table
  join_update_times :: "string \<Rightarrow> real list"
  join_callbacks :: "string \<rightharpoonup> cb list"
  global_callbacks :: "cb list"
  sync_all_joins_callback :: "cb option"
  initial_sync_received :: bool
  initial_sync_event :: bool
  last_sync_request :: real
  trace :: "effect list"

text \<open>\<^verbatim>\<open>CrestronServer.__init__\<close>\<close>

definition init :: server where
  "init = \<lparr>writer = None, reader = False, available_flag = False, command_queue = [],
           command_event = False, digital = Map.empty, analog = Map.empty,
           serial = Map.empty, join_update_times = (\<lambda>k. []), join_callbacks = Map.empty,
           global_callbacks = [], sync_all_joins_callback = None,
           initial_sync_received = False, initial_sync_event = False,
           last_sync_request = 0, trace = []\<rparr>"

text \<open>The property \<^verbatim>\<open>available\<close>\<close>

definition available :: "server \<Rightarrow> bool" where
  "available s =
     (available_flag s \<and> (case writer s of None \<Rightarrow> False | Some w \<Rightarrow> \<not> is_closing w))"

text \<open>\<^verbatim>\<open>table[join]\<close> on a \<^verbatim>\<open>defaultdict(JoinState)\<close>: the entry, created when missing.\<close>

definition entry :: "join_table \<Rightarrow> int \<Rightarrow> join_state" where
  "entry tbl join = (case tbl join of None \<Rightarrow> JoinState | Some js \<Rightarrow> js)"

definition touch :: "join_table \<Rightarrow> int \<Rightarrow> join_table" where
  "touch tbl join = tbl(join \<mapsto> entry tbl join)"

text \<open>
  The three assignments \<^verbatim>\<open>join_state.value = v\<close>, \<^verbatim>\<open>join_state.last_update = time.time()\<close>,
  \<^verbatim>\<open>join_state.update_count += 1\<close> on \<^verbatim>\<open>table[join]\<close>.
\<close>

definition update_join :: "join_table \<Rightarrow> int \<Rightarrow> pyval \<Rightarrow> real \<Rightarrow> join_table" where
  "update_join tbl join v t =
     tbl(join \<mapsto> (entry tbl join)\<lparr>value' := v, last_update := t,
                                   update_count := update_count (entry tbl join) + 1\<rparr>)"

subsection \<open>Validation and rate limiting\<close>

definition validate_join :: "int \<Rightarrow> string \<Rightarrow> exc + unit" where
  "validate_join join join_type =
     (if join_type = ''d'' \<and> \<not> (0 < join \<and> join \<le> MAX_DIGITAL_JOIN)
      then Inl (Exc ValueError ''Invalid join number: Digital join exceeds maximum'' None)
      else if join_type = ''a'' \<and> \<not> (0 < join \<and> join \<le> MAX_ANALOG_JOIN)
      then Inl (Exc ValueError ''Invalid join number: Analog join exceeds maximum'' None)
      else Inr ())"

text \<open>\<^verbatim>\<open>while updates and now - updates[0] > JOIN_UPDATE_WINDOW: updates.pop(0)\<close>\<close>

fun expire :: "real \<Rightarrow> real list \<Rightarrow> real list" where
  "expire now [] = []"
| "expire now (t # ts) = (if now - t > JOIN_UPDATE_WINDOW then expire now ts else t # ts)"

definition check_rate_limit :: "server \<Rightarrow> real \<Rightarrow> string \<Rightarrow> server \<times> bool" where
  "check_rate_limit s now jid =
     (let updates = expire now (join_update_times s jid)
      in if length updates \<ge> MAX_JOIN_UPDATES
         then (s\<lparr>join_update_times := (join_update_times s)(jid := updates)\<rparr>, False)
         else (s\<lparr>join_update_times := (join_update_times s)(jid := updates @ [now])\<rparr>, True))"

subsection \<open>Callback dispatch\<close>

text \<open>
  \<^verbatim>\<open>_notify_callbacks\<close>: the callbacks registered for the join id, then the global callbacks
  when the id is \<^verbatim>\<open>"system"\<close>. Every exception of a callback is caught and logged, so the call
  always returns; callbacks are taken not to call back into the server.
\<close>

definition callbacks_for :: "server \<Rightarrow> string \<Rightarrow> cb list" where
  "callbacks_for s jid =
     (case join_callbacks s jid of None \<Rightarrow> [] | Some cs \<Rightarrow> cs)
     @ (if jid = ''system'' then global_callbacks s else [])"

definition notify_callbacks :: "server \<Rightarrow> string \<Rightarrow> pystr \<Rightarrow> server" where
  "notify_callbacks s jid v = s\<lparr>trace := trace s @ [Notified jid v (callbacks_for s jid)]\<rparr>"

text \<open>
  \<^verbatim>\<open>writer.write(data); await writer.drain()\<close>: \<^verbatim>\<open>write\<close> hands the bytes to the writer,
  \<^verbatim>\<open>drain\<close> raises when the connection is lost (\<open>ok\<close> false).
\<close>

definition write_drain :: "server \<Rightarrow> bool \<Rightarrow> byte list \<Rightarrow> server \<times> (exc + unit)" where
  "write_drain s ok data =
     (s\<lparr>trace := trace s @ [Written data]\<rparr>,
      if ok then Inr () else Inl (Exc OSError ''connection lost'' None))"

subsection \<open>The connection handler\<close>

text \<open>
  One pass of the \<^verbatim>\<open>while connected\<close> loop of \<^verbatim>\<open>handle_connection\<close> meets the outside at
  fixed places: \<^verbatim>\<open>reader.read(1)\<close>, a second \<^verbatim>\<open>reader.read(1)\<close>, then \<^verbatim>\<open>reader.read(2)\<close> or
  \<^verbatim>\<open>reader.readuntil(b"\xff")\<close>, one reading of \<^verbatim>\<open>time.time()\<close>, the writer, and the sync-all
  hook. The input of a pass gives what each of them returns; a reader call either returns
  bytes (none at end of stream) or raises.
\<close>

datatype read_res = Got "byte list" | Fails

record iter_in =
  clock :: real
  read1 :: read_res
  read2 :: read_res
  read3 :: read_res
  write_ok :: bool
  hook_ok :: bool

definition read_error :: exc where
  "read_error = Exc OSError ''read failed'' None"

definition struct_error :: exc where
  "struct_error = Exc StructError ''unpack requires a buffer of the format size'' None"

text \<open>The first sync of a connection (the body of \<^verbatim>\<open>if not self._initial_sync_received\<close>).\<close>

definition first_sync :: "server \<Rightarrow> iter_in \<Rightarrow> server \<times> (exc + unit)" where
  "first_sync s i =
     (let s1 = s\<lparr>initial_sync_received := True, initial_sync_event := True,
                 available_flag := True, command_event := True\<rparr>;
          s2 = notify_callbacks s1 ''system'' (ascii ''connected'')
      in write_drain s2 (write_ok i) CMD_UPDATE_REQUEST)"

definition sync_all_hook :: "server \<Rightarrow> iter_in \<Rightarrow> server \<times> (exc + unit)" where
  "sync_all_hook s i =
     (case sync_all_joins_callback s of
        None \<Rightarrow> (s, Inr ())
      | Some c \<Rightarrow>
          (s\<lparr>trace := trace s @ [SyncAllCalled c]\<rparr>,
           if hook_ok i then Inr () else Inl (Exc HookError ''sync-all hook raised'' None)))"

text \<open>The branch \<^verbatim>\<open>data[0] == 0xFB\<close>, with its 100ms debounce.\<close>

definition sync_branch :: "server \<Rightarrow> iter_in \<Rightarrow> server \<times> (exc + unit)" where
  "sync_branch s i =
     (if clock i - last_sync_request s > 1 / 10 then
        (let s1 = s\<lparr>last_sync_request := clock i\<rparr>
         in case (if \<not> initial_sync_received s1 then first_sync s1 i else (s1, Inr ())) of
              (s2, Inl e) \<Rightarrow> (s2, Inl e)
            | (s2, Inr u) \<Rightarrow> sync_all_hook s2 i)
      else (s, Inr ()))"

definition digital_branch :: "server \<Rightarrow> iter_in \<Rightarrow> byte list \<Rightarrow> server \<times> (exc + unit)" where
  "digital_branch s i data =
     (case data of
        [d0, d1] \<Rightarrow>
          (let join = digital_join (uint d0) (uint d1);
               v = digital_value (uint d0);
               current_bool = (v = 1);
               s1 = s\<lparr>digital := update_join (digital s) join (PBool current_bool) (clock i)\<rparr>
           in (notify_callbacks s1 (join_id CHR ''d'' join)
                 (ascii (if current_bool then ''1'' else ''0'')), Inr ()))
      | _ \<Rightarrow> (s, Inl struct_error))"

definition analog_branch :: "server \<Rightarrow> iter_in \<Rightarrow> byte list \<Rightarrow> server \<times> (exc + unit)" where
  "analog_branch s i data =
     (case data of
        [d0, d1, d2, d3] \<Rightarrow>
          (let join = analog_join (uint d0) (uint d1);
               v = analog_value (uint d0) (uint d2) (uint d3);
               js = entry (analog s) join;
               s1 = s\<lparr>analog := touch (analog s) join\<rparr>
           in if \<not> py_eq (value' js) (PInt v)
              then (notify_callbacks
                      (s1\<lparr>analog := update_join (analog s1) join (PInt v) (clock i)\<rparr>)
                      (join_id CHR ''a'' join) (ascii (str_int v)), Inr ())
              else (s1, Inr ()))
      | _ \<Rightarrow> (s, Inl struct_error))"

text \<open>The serial branch decodes \<^verbatim>\<open>data[2:-1]\<close>; its join is read like an analog join.\<close>

definition serial_branch :: "server \<Rightarrow> iter_in \<Rightarrow> byte list \<Rightarrow> server \<times> (exc + unit)" where
  "serial_branch s i data =
     (case take 2 data of
        [d0, d1] \<Rightarrow>
          (case decode (butlast (drop 2 data)) of
             None \<Rightarrow> (s, Inl (Exc UnicodeError ''invalid utf-8'' None))
           | Some string \<Rightarrow>
               (let join = analog_join (uint d0) (uint d1);
                    js = entry (serial s) join;
                    s1 = s\<lparr>serial := touch (serial s) join\<rparr>
                in if \<not> py_eq (value' js) (PStr string)
                   then (notify_callbacks
                           (s1\<lparr>serial := update_join (serial s1) join (PStr string) (clock i)\<rparr>)
                           (join_id CHR ''s'' join) string, Inr ())
                   else (s1, Inr ())))
      | _ \<Rightarrow> (s, Inl struct_error))"

text \<open>The \<^verbatim>\<open>else\<close> of \<^verbatim>\<open>data[0] == 0xFB\<close>: the if/elif chain on the two header bytes.\<close>

definition frame_branch :: "server \<Rightarrow> iter_in \<Rightarrow> byte list \<Rightarrow> server \<times> (exc + unit)" where
  "frame_branch s i data =
     (case frame_kind_of data of
        Inl e \<Rightarrow> (s, Inl e)
      | Inr DigitalFrame \<Rightarrow> digital_branch s i data
      | Inr AnalogFrame \<Rightarrow>
          (case read3 i of
             Fails \<Rightarrow> (s, Inl read_error)
           | Got extra \<Rightarrow> analog_branch s i (data @ extra))
      | Inr SerialFrame \<Rightarrow>
          (case read3 i of
             Fails \<Rightarrow> (s, Inl read_error)
           | Got extra \<Rightarrow> serial_branch s i (data @ extra))
      | Inr NoFrame \<Rightarrow> (s, Inr ()))"

text \<open>What every disconnect path does before it notifies.\<close>

definition mark_disconnected :: "server \<Rightarrow> server" where
  "mark_disconnected s =
     notify_callbacks (s\<lparr>available_flag := False, command_event := False\<rparr>)
       ''system'' (ascii ''disconnected'')"

text \<open>The \<^verbatim>\<open>try\<close> block of the loop; \<open>Inr c\<close> is the value of \<^verbatim>\<open>connected\<close> after it.\<close>

definition loop_try :: "server \<Rightarrow> iter_in \<Rightarrow> server \<times> (exc + bool)" where
  "loop_try s i =
     (case read1 i of
        Fails \<Rightarrow> (s, Inl read_error)
      | Got data \<Rightarrow>
          if data \<noteq> [] then
            (case (if uint (hd data) = 0xFB then sync_branch s i
                   else (case read2 i of
                           Fails \<Rightarrow> (s, Inl read_error)
                         | Got extra \<Rightarrow> frame_branch s i (data @ extra))) of
               (s1, Inl e) \<Rightarrow> (s1, Inl e)
             | (s1, Inr u) \<Rightarrow> (s1, Inr True))
          else (mark_disconnected s, Inr False))"

text \<open>One pass, with the \<^verbatim>\<open>except Exception\<close> of the loop; the result says whether
  \<^verbatim>\<open>connected\<close> still holds.\<close>

definition loop_iteration :: "server \<Rightarrow> iter_in \<Rightarrow> server \<times> bool" where
  "loop_iteration s i =
     (case loop_try s i of
        (s1, Inl e) \<Rightarrow> (mark_disconnected s1, False)
      | (s1, Inr c) \<Rightarrow> (s1, c))"

text \<open>The loop on the passes the peer has provided so far; \<open>True\<close>: still connected,
  waiting in \<^verbatim>\<open>reader.read(1)\<close>.\<close>

fun read_loop :: "server \<Rightarrow> iter_in list \<Rightarrow> server \<times> bool" where
  "read_loop s [] = (s, True)"
| "read_loop s (i # ins) =
     (case loop_iteration s i of
        (s1, True) \<Rightarrow> read_loop s1 ins
      | (s1, False) \<Rightarrow> (s1, False))"

text \<open>The statements of \<^verbatim>\<open>handle_connection\<close> before the loop.\<close>

definition connection_made :: "server \<Rightarrow> bool \<Rightarrow> server \<times> (exc + unit)" where
  "connection_made s ok =
     write_drain
       (s\<lparr>writer := Some (Writer False), reader := True,
          initial_sync_received := False, initial_sync_event := False,
          last_sync_request := 0,
          digital := Map.empty, analog := Map.empty, serial := Map.empty\<rparr>)
       ok CMD_UPDATE_REQUEST"

text \<open>The \<^verbatim>\<open>finally\<close> block of \<^verbatim>\<open>handle_connection\<close>.\<close>

definition connection_cleanup :: "server \<Rightarrow> server" where
  "connection_cleanup s =
     (let s1 = (case writer s of
                  None \<Rightarrow> s
                | Some w \<Rightarrow> s\<lparr>trace := trace s @ [WriterClosed]\<rparr>)
      in notify_callbacks
           (s1\<lparr>writer := None, reader := False, available_flag := False,
               command_event := False, initial_sync_received := False,
               initial_sync_event := False\<rparr>)
           ''system'' (ascii ''disconnected''))"

text \<open>
  \<^verbatim>\<open>handle_connection\<close> for a peer that has sent the given passes. The second component
  says whether the handler has returned (\<open>False\<close>: it still waits for the peer).
\<close>

definition handle_connection :: "server \<Rightarrow> bool \<Rightarrow> iter_in list \<Rightarrow> server \<times> bool" where
  "handle_connection s ok ins =
     (case connection_made s ok of
        (s1, Inl e) \<Rightarrow> (connection_cleanup s1, True)
      | (s1, Inr u) \<Rightarrow>
          (case read_loop s1 ins of
             (s2, True) \<Rightarrow> (s2, False)
           | (s2, False) \<Rightarrow> (connection_cleanup s2, True)))"

subsection \<open>Getters\<close>

definition get_digital_try :: "server \<Rightarrow> int \<Rightarrow> server \<times> (exc + pyval)" where
  "get_digital_try s join =
     (case validate_join join ''d'' of
        Inl e \<Rightarrow> (s, Inl e)
      | Inr u \<Rightarrow>
          if \<not> available s then (s, Inr (PBool False))
          else (s\<lparr>digital := touch (digital s) join\<rparr>,
                Inr (py_or (value' (entry (digital s) join)) (PBool False))))"

definition get_digital :: "server \<Rightarrow> int \<Rightarrow> server \<times> (exc + pyval)" where
  "get_digital s join =
     (case get_digital_try s join of
        (s1, Inl e) \<Rightarrow> (s1, Inr (PBool False))
      | (s1, Inr v) \<Rightarrow> (s1, Inr v))"

definition get_analog_try :: "server \<Rightarrow> int \<Rightarrow> server \<times> (exc + pyval)" where
  "get_analog_try s join =
     (case validate_join join ''a'' of
        Inl e \<Rightarrow> (s, Inl e)
      | Inr u \<Rightarrow>
          if \<not> available s then (s, Inr PNone)
          else (s\<lparr>analog := touch (analog s) join\<rparr>,
                Inr (value' (entry (analog s) join))))"

definition get_analog :: "server \<Rightarrow> int \<Rightarrow> server \<times> (exc + pyval)" where
  "get_analog s join =
     (case get_analog_try s join of
        (s1, Inl e) \<Rightarrow> (s1, Inr PNone)
      | (s1, Inr v) \<Rightarrow> (s1, Inr v))"

definition get_serial_try :: "server \<Rightarrow> int \<Rightarrow> server \<times> (exc + pyval)" where
  "get_serial_try s join =
     (if \<not> available s then (s, Inr (PStr []))
      else (s\<lparr>serial := touch (serial s) join\<rparr>,
            Inr (py_or (value' (entry (serial s) join)) (PStr []))))"

definition get_serial :: "server \<Rightarrow> int \<Rightarrow> server \<times> (exc + pyval)" where
  "get_serial s join =
     (case get_serial_try s join of
        (s1, Inl e) \<Rightarrow> (s1, Inr (PStr []))
      | (s1, Inr v) \<Rightarrow> (s1, Inr v))"

subsection \<open>Setters and their commands\<close>

text \<open>
  A setter returns, raises, or waits in \<^verbatim>\<open>await self._command_queue.put(...)\<close> while the
  bounded queue is full.
\<close>

datatype outcome = Returned | Raised exc | Blocked

definition put_command :: "server \<Rightarrow> command \<Rightarrow> server \<times> outcome" where
  "put_command s c =
     (if length (command_queue s) < MAX_QUEUE_SIZE
      then (s\<lparr>command_queue := command_queue s @ [c]\<rparr>, Returned)
      else (s, Blocked))"

definition not_available :: exc where
  "not_available = Exc ConnectionError ''Server not available'' None"

definition no_connection :: exc where
  "no_connection = Exc ConnectionError ''No connection to Crestron system'' None"

definition rate_exceeded :: exc where
  "rate_exceeded = Exc HomeAssistantError ''Join update rate exceeded'' None"

definition too_long :: exc where
  "too_long = Exc ValueError ''String too long'' None"

text \<open>\<^verbatim>\<open>except Exception as err: raise ConnectionError(...) from err\<close>\<close>

definition reraise :: "string \<Rightarrow> server \<times> outcome \<Rightarrow> server \<times> outcome" where
  "reraise msg r =
     (case r of
        (s, Raised e) \<Rightarrow> (s, Raised (Exc ConnectionError msg (Some e)))
      | (s, out) \<Rightarrow> (s, out))"

definition set_digital_try :: "server \<Rightarrow> real \<Rightarrow> int \<Rightarrow> bool \<Rightarrow> server \<times> outcome" where
  "set_digital_try s now join v =
     (case validate_join join ''d'' of
        Inl e \<Rightarrow> (s, Raised e)
      | Inr u \<Rightarrow>
          if \<not> available s then (s, Raised not_available)
          else if writer s = None then (s, Raised no_connection)
          else (case check_rate_limit s now (join_id CHR ''d'' join) of
                  (s1, False) \<Rightarrow> (s1, Raised rate_exceeded)
                | (s1, True) \<Rightarrow> put_command s1 (SendDigital join v)))"

definition set_digital :: "server \<Rightarrow> real \<Rightarrow> int \<Rightarrow> bool \<Rightarrow> server \<times> outcome" where
  "set_digital s now join v =
     reraise ''Failed to send digital value'' (set_digital_try s now join v)"

definition set_analog_try :: "server \<Rightarrow> real \<Rightarrow> int \<Rightarrow> int \<Rightarrow> server \<times> outcome" where
  "set_analog_try s now join v =
     (case validate_join join ''a'' of
        Inl e \<Rightarrow> (s, Raised e)
      | Inr u \<Rightarrow>
          if \<not> available s then (s, Raised not_available)
          else if writer s = None then (s, Raised no_connection)
          else (case check_rate_limit s now (join_id CHR ''a'' join) of
                  (s1, False) \<Rightarrow> (s1, Raised rate_exceeded)
                | (s1, True) \<Rightarrow> put_command s1 (SendAnalog join v)))"

definition set_analog :: "server \<Rightarrow> real \<Rightarrow> int \<Rightarrow> int \<Rightarrow> server \<times> outcome" where
  "set_analog s now join v =
     reraise ''Failed to send analog value'' (set_analog_try s now join v)"

text \<open>\<^verbatim>\<open>len(string)\<close> counts the characters of the string, not its encoded bytes.\<close>

definition set_serial_try :: "server \<Rightarrow> real \<Rightarrow> int \<Rightarrow> pystr \<Rightarrow> server \<times> outcome" where
  "set_serial_try s now join string =
     (if \<not> available s then (s, Raised not_available)
      else if writer s = None then (s, Raised no_connection)
      else if length string > 252 then (s, Raised too_long)
      else (case check_rate_limit s now (join_id CHR ''s'' join) of
              (s1, False) \<Rightarrow> (s1, Raised rate_exceeded)
            | (s1, True) \<Rightarrow> put_command s1 (SendSerial join string)))"

definition set_serial :: "server \<Rightarrow> real \<Rightarrow> int \<Rightarrow> pystr \<Rightarrow> server \<times> outcome" where
  "set_serial s now join string =
     reraise ''Failed to send serial value'' (set_serial_try s now join string)"

text \<open>
  Running a queued \<^verbatim>\<open>send_command\<close>: pack, \<^verbatim>\<open>self._writer.write\<close> (\<^verbatim>\<open>AttributeError\<close> when the
  writer is \<^verbatim>\<open>None\<close>), drain, and for analog and serial the update of the local entry.
  \<open>ok\<close> says whether drain returns, \<open>now\<close> is the reading of the clock.
\<close>

definition send_frame :: "server \<Rightarrow> bool \<Rightarrow> exc + byte list \<Rightarrow> server \<times> (exc + unit)" where
  "send_frame s ok frame =
     (case frame of
        Inl e \<Rightarrow> (s, Inl e)
      | Inr data \<Rightarrow>
          (case writer s of
             None \<Rightarrow> (s, Inl (Exc AttributeError ''NoneType has no attribute write'' None))
           | Some w \<Rightarrow> write_drain s ok data))"

fun send_command :: "server \<Rightarrow> bool \<Rightarrow> real \<Rightarrow> command \<Rightarrow> server \<times> (exc + unit)" where
  "send_command s ok now (SendDigital join v) = send_frame s ok (digital_frame join v)"
| "send_command s ok now (SendAnalog join v) =
     (case send_frame s ok (analog_frame join v) of
        (s1, Inl e) \<Rightarrow> (s1, Inl e)
      | (s1, Inr u) \<Rightarrow> (s1\<lparr>analog := update_join (analog s1) join (PInt v) now\<rparr>, Inr ()))"
| "send_command s ok now (SendSerial join string) =
     (case send_frame s ok (serial_frame join string) of
        (s1, Inl e) \<Rightarrow> (s1, Inl e)
      | (s1, Inr u) \<Rightarrow> (s1\<lparr>serial := update_join (serial s1) join (PStr string) now\<rparr>, Inr ()))"

subsection \<open>Observations on a run\<close>

text \<open>
  How often \<^verbatim>\<open>_notify_callbacks("system", v)\<close> has been called in a trace, and whether a
  pass of the read loop starts with the sync byte \<^verbatim>\<open>0xFB\<close>.
\<close>

fun is_system_event :: "pystr \<Rightarrow> effect \<Rightarrow> bool" where
  "is_system_event v (Notified jid x cs) = (jid = ''system'' \<and> x = v)"
| "is_system_event v e = False"

definition system_events :: "pystr \<Rightarrow> effect list \<Rightarrow> nat" where
  "system_events v tr = length (filter (is_system_event v) tr)"

definition sync_pass :: "iter_in \<Rightarrow> bool" where
  "sync_pass i = (case read1 i of Got (b # bs) \<Rightarrow> uint b = 0xFB | _ \<Rightarrow> False)"

subsection \<open>A server after its first sync\<close>


definition synced :: server where
  "synced = \<lparr>writer = Some (Writer False), reader = True, available_flag = True,
             command_queue = [], command_event = True, digital = Map.empty,
             analog = Map.empty, serial = Map.empty, join_update_times = (\<lambda>k. []),
             join_callbacks = Map.empty, global_callbacks = [0],
             sync_all_joins_callback = None, initial_sync_received = True,
             initial_sync_event = True, last_sync_request = 100,
             trace = [Written [0xFD], Notified ''system'' (ascii ''connected'') [0],
                      Written [0xFD]]\<rparr>"

subsection \<open>Passes of a sample connection\<close>

text \<open>
  A server that listens with one system callback registered; a pass that reads the digital
  frame \<open>0x80 0x09\<close> at clock 99, a second sync byte 50ms after the first, and a pass that
  reads end of stream.
\<close>

definition listening :: server where
  "listening = init\<lparr>global_callbacks := [0]\<rparr>"

definition digital_in :: iter_in where
  "digital_in = \<lparr>clock = 99, read1 = Got [0x80], read2 = Got [0x09], read3 = Got [],
                 write_ok = True, hook_ok = True\<rparr>"

definition eof_in :: iter_in where
  "eof_in = \<lparr>clock = 101, read1 = Got [], read2 = Got [], read3 = Got [],
             write_ok = True, hook_ok = True\<rparr>"


subsection \<open>Relations between two states of the server\<close>

text \<open>
  \<open>steady s s'\<close>: the connection objects, the command queue, the limiter and the callback
  registry are the same in both states. \<open>quiet s s'\<close>: moreover the connection flags are the
  same and no system event lies between them.
\<close>

definition steady :: "server \<Rightarrow> server \<Rightarrow> bool" where
  "steady s s' \<longleftrightarrow>
     writer s' = writer s \<and> reader s' = reader s
     \<and> command_queue s' = command_queue s
     \<and> join_update_times s' = join_update_times s \<and> join_callbacks s' = join_callbacks s
     \<and> global_callbacks s' = global_callbacks s
     \<and> sync_all_joins_callback s' = sync_all_joins_callback s"

definition quiet :: "server \<Rightarrow> server \<Rightarrow> bool" where
  "quiet s s' \<longleftrightarrow>
     writer s' = writer s \<and> reader s' = reader s \<and> available_flag s' = available_flag s
     \<and> command_queue s' = command_queue s \<and> command_event s' = command_event s
     \<and> join_update_times s' = join_update_times s \<and> join_callbacks s' = join_callbacks s
     \<and> global_callbacks s' = global_callbacks s
     \<and> sync_all_joins_callback s' = sync_all_joins_callback s
     \<and> initial_sync_received s' = initial_sync_received s
     \<and> initial_sync_event s' = initial_sync_event s
     \<and> last_sync_request s' = last_sync_request s
     \<and> (\<forall>v. system_events v (trace s') = system_events v (trace s))"

subsection \<open>A server at its rate limit\<close>

text \<open>
  The synced server with 1000 sends recorded at clock 99.5 for each of the join ids
  \<^verbatim>\<open>d1\<close>, \<^verbatim>\<open>a1\<close> and \<^verbatim>\<open>s1\<close>.
\<close>

definition limited :: server where
  "limited = synced\<lparr>join_update_times :=
     (\<lambda>k. [])(''d1'' := replicate 1000 (199 / 2), ''a1'' := replicate 1000 (199 / 2),
              ''s1'' := replicate 1000 (199 / 2))\<rparr>"

subsection \<open>Terms named for the proofs\<close>

text \<open>
  The first byte of a digital frame whose join fits the 12-bit join field, and the first
  byte of an analog frame whose join fits the 10-bit join field and whose value fits 16 bits.
\<close>

definition dig0 :: "int \<Rightarrow> bool \<Rightarrow> int" where
  "dig0 m v = 128 OR (if v then 0 else 32) OR drop_bit 7 (take_bit 12 m)"

definition ana0 :: "int \<Rightarrow> int \<Rightarrow> int" where
  "ana0 m v = 192 OR (drop_bit 10 (take_bit 16 v) AND 48) OR drop_bit 7 (take_bit 10 m)"

section \<open>Properties\<close>

subsection \<open>Bits of the constants of the codec\<close>

lemma bit_32_int: "bit (32::int) n \<longleftrightarrow> n = 5"
  using bit_exp_iff [where ?'a = int, of 5 n] by simp

lemma bit_128_int: "bit (128::int) n \<longleftrightarrow> n = 7"
  using bit_exp_iff [where ?'a = int, of 7 n] by simp

lemma bit_7_int: "bit (7::int) n \<longleftrightarrow> n < 3"
  using bit_mask_iff [where ?'a = int, of 3 n] by (simp add: mask_eq_exp_minus_1)

lemma bit_31_int: "bit (31::int) n \<longleftrightarrow> n < 5"
  using bit_mask_iff [where ?'a = int, of 5 n] by (simp add: mask_eq_exp_minus_1)

lemma bit_127_int: "bit (127::int) n \<longleftrightarrow> n < 7"
  using bit_mask_iff [where ?'a = int, of 7 n] by (simp add: mask_eq_exp_minus_1)

lemma bit_48_int: "bit (48::int) n \<longleftrightarrow> n = 4 \<or> n = 5"
proof -
  have "(48::int) = 2 ^ 4 OR 2 ^ 5" by simp
  then have "bit (48::int) n \<longleftrightarrow> bit (2 ^ 4 OR 2 ^ 5 :: int) n" by simp
  also have "\<dots> \<longleftrightarrow> n = 4 \<or> n = 5" by (simp only: bit_or_iff bit_exp_iff) auto
  finally show ?thesis .
qed

lemma bit_192_int: "bit (192::int) n \<longleftrightarrow> n = 6 \<or> n = 7"
proof -
  have "(192::int) = 2 ^ 6 OR 2 ^ 7" by simp
  then have "bit (192::int) n \<longleftrightarrow> bit (2 ^ 6 OR 2 ^ 7 :: int) n" by simp
  also have "\<dots> \<longleftrightarrow> n = 6 \<or> n = 7" by (simp only: bit_or_iff bit_exp_iff) auto
  finally show ?thesis .
qed

lemma bit_200_int: "bit (200::int) n \<longleftrightarrow> n = 3 \<or> n = 6 \<or> n = 7"
proof -
  have "(200::int) = 2 ^ 3 OR 2 ^ 6 OR 2 ^ 7" by simp
  then have "bit (200::int) n \<longleftrightarrow> bit (2 ^ 3 OR 2 ^ 6 OR 2 ^ 7 :: int) n" by simp
  also have "\<dots> \<longleftrightarrow> n = 3 \<or> n = 6 \<or> n = 7" by (simp only: bit_or_iff bit_exp_iff) auto
  finally show ?thesis .
qed

lemmas const_bits = bit_32_int bit_128_int bit_7_int bit_31_int bit_127_int bit_48_int
  bit_192_int bit_200_int

subsection \<open>Round trips of the frame codec\<close>

lemma sense_bit: "push_bit 5 (NOT (of_bool v :: int)) AND 32 = (if v then 0 else 32)"
  by (cases v) (auto intro!: bit_eqI simp add: bit_simps const_bits)

lemma uint_pack_B:
  assumes "0 \<le> x" "x \<le> 255"
  shows "pack_B x = Inr (word_of_int x)" and "uint (word_of_int x :: byte) = x"
  using assms by (simp_all add: pack_B_def uint_word_of_int_eq take_bit_int_eq_self)


lemma byte_range: "take_bit 8 x = x \<Longrightarrow> 0 \<le> x \<and> x \<le> (255::int)"
proof -
  assume a: "take_bit 8 x = x"
  have "0 \<le> take_bit 8 x" by simp
  moreover have "take_bit 8 x < 2 ^ 8" by (rule take_bit_int_less_exp)
  ultimately show ?thesis using a by simp
qed

lemma dig0_range: "0 \<le> dig0 m v \<and> dig0 m v \<le> 255"
  by (rule byte_range) (auto intro!: bit_eqI simp add: dig0_def bit_simps const_bits)

lemma low7_range: "0 \<le> m AND 127 \<and> m AND 127 \<le> (255::int)"
  by (rule byte_range) (auto intro!: bit_eqI simp add: bit_simps const_bits)

lemma low7_top: "(m AND 127) AND 128 = (0::int)"
  by (auto intro!: bit_eqI simp add: bit_simps const_bits)

lemma dig0_low: "dig0 m v AND 31 = drop_bit 7 (take_bit 12 m)"
  by (auto intro!: bit_eqI simp add: dig0_def bit_simps const_bits)

lemma dig0_top: "dig0 m v AND 192 = 128"
  by (auto intro!: bit_eqI simp add: dig0_def bit_simps const_bits)

lemma dig0_value: "drop_bit 5 (NOT (dig0 m v)) AND 1 = of_bool v"
  by (auto intro!: bit_eqI simp add: dig0_def bit_simps const_bits)

lemma join_bits: "push_bit 7 (drop_bit 7 m) OR (m AND 127) = (m::int)"
  by (auto intro!: bit_eqI simp add: bit_simps const_bits)

lemma digital_frame_small:
  assumes "1 \<le> n" "n \<le> 4096"
  shows "digital_frame n v = Inr [word_of_int (dig0 (n - 1) v), word_of_int ((n - 1) AND 127)]"
proof -
  have m: "take_bit 12 (n - 1) = n - 1"
    using assms by (simp add: take_bit_int_eq_self)
  have "128 OR (push_bit 5 (NOT (of_bool v)) AND 32) OR drop_bit 7 (n - 1) = dig0 (n - 1) v"
    by (simp add: dig0_def sense_bit m)
  then show ?thesis
    using dig0_range [of "n - 1" v] low7_range [of "n - 1"]
    by (simp add: digital_frame_def uint_pack_B)
qed

text \<open>
  The round trip of a digital frame on the joins its 12-bit join field can carry: for every
  join \<open>n\<close> in \<open>[1, 4096]\<close> and boolean \<open>v\<close>, the encoder of \<^verbatim>\<open>set_digital\<close> packs two
  bytes, the read loop takes them for a digital frame, and its decoder yields \<open>(n, v)\<close>.
\<close>

lemma digital_roundtrip:
  assumes "1 \<le> n" "n \<le> 4096"
  shows "\<exists>d0 d1. digital_frame n v = Inr [d0, d1]
           \<and> frame_kind_of [d0, d1] = Inr DigitalFrame
           \<and> digital_join (uint d0) (uint d1) = n
           \<and> (digital_value (uint d0) = 1) = v"
proof -
  let ?m = "n - 1"
  let ?d0 = "word_of_int (dig0 ?m v) :: byte"
  let ?d1 = "word_of_int (?m AND 127) :: byte"
  have m: "take_bit 12 ?m = ?m"
    using assms by (simp add: take_bit_int_eq_self)
  have u0: "uint ?d0 = dig0 ?m v"
    using dig0_range [of ?m v] by (simp add: uint_pack_B)
  have u1: "uint ?d1 = ?m AND 127"
    using low7_range [of ?m] by (simp add: uint_pack_B)
  have kind: "frame_kind_of [?d0, ?d1] = Inr DigitalFrame"
    by (simp add: frame_kind_of_def header_test_def item_def u0 u1 dig0_top low7_top)
  have j: "digital_join (uint ?d0) (uint ?d1) = n"
    using join_bits [of ?m] by (simp add: digital_join_def u0 u1 dig0_low m)
  have val: "(digital_value (uint ?d0) = 1) = v"
    by (simp add: digital_value_def u0 dig0_value)
  show ?thesis
    using digital_frame_small [OF assms, of v] kind j val by blast
qed

text \<open>Digital join 10 set ON: the bytes are \<open>0x80 0x09\<close>.\<close>

lemma digital_roundtrip_join_10:
  "digital_frame 10 True = Inr [0x80, 0x09]
   \<and> frame_kind_of [0x80, 0x09] = Inr DigitalFrame
   \<and> digital_join (uint (0x80 :: byte)) (uint (0x09 :: byte)) = 10
   \<and> (digital_value (uint (0x80 :: byte)) = 1) = True"
  using digital_roundtrip [of 10 True]
  by (simp add: digital_frame_def pack_B_def digital_join_def digital_value_def
      frame_kind_of_def header_test_def item_def)

lemma ana0_range: "0 \<le> ana0 m v \<and> ana0 m v \<le> 255"
  by (rule byte_range) (auto intro!: bit_eqI simp add: ana0_def bit_simps const_bits)

lemma mid7_range: "0 \<le> drop_bit 7 v AND 127 \<and> drop_bit 7 v AND 127 \<le> (255::int)"
  by (rule byte_range) (auto intro!: bit_eqI simp add: bit_simps const_bits)

lemma ana0_not_digital: "ana0 m v AND 192 \<noteq> 128"
proof
  assume "ana0 m v AND 192 = 128"
  then have "bit (ana0 m v AND 192) 6 = bit (128::int) 6" by simp
  then show False by (simp add: ana0_def bit_simps const_bits)
qed

lemma ana0_analog: "ana0 m v AND 200 = 192"
  by (auto intro!: bit_eqI simp add: ana0_def bit_simps const_bits)

lemma ana0_low: "ana0 m v AND 7 = drop_bit 7 (take_bit 10 m)"
  by (auto intro!: bit_eqI simp add: ana0_def bit_simps const_bits)

lemma ana0_hi: "ana0 m v AND 48 = drop_bit 10 (take_bit 16 v) AND 48"
  by (auto intro!: bit_eqI simp add: ana0_def bit_simps const_bits)

lemma value_bits:
  "push_bit 10 (drop_bit 10 w AND 48) OR push_bit 7 (drop_bit 7 w AND 127) OR (w AND 127)
     = take_bit 16 (w::int)"
proof (rule bit_eqI)
  fix n :: nat
  have a: "n - 10 = 4 \<longleftrightarrow> n = 14" "n - 10 = 5 \<longleftrightarrow> n = 15" "10 \<le> n \<Longrightarrow> 10 + (n - 10) = n"
      "7 \<le> n \<Longrightarrow> 7 + (n - 7) = n" "n - 7 < 7 \<longleftrightarrow> n < 14"
    by auto
  show "bit (push_bit 10 (drop_bit 10 w AND 48) OR push_bit 7 (drop_bit 7 w AND 127)
          OR (w AND 127)) n = bit (take_bit 16 w) n"
    apply (simp add: bit_simps const_bits a del: push_bit_and)
    apply (cases "n < 7"; cases "n < 10"; cases "n < 14"; cases "n < 16"; simp add: a)
    apply auto
    done
qed

lemma ana0_value:
  "push_bit 10 (ana0 m v AND 48) OR push_bit 7 (drop_bit 7 (take_bit 16 v) AND 127)
     OR (take_bit 16 v AND 127) = take_bit 16 v"
  using value_bits [of "take_bit 16 v"] by (simp only: ana0_hi take_bit_take_bit min.idem)

text \<open>
  The round trip of an analog frame on the joins its 10-bit join field can carry: for every
  join \<open>n\<close> in \<open>[1, 1024]\<close> and value \<open>v\<close> in \<open>[0, 65535]\<close>, the encoder of \<^verbatim>\<open>set_analog\<close>
  packs four bytes, the read loop takes their header for an analog frame, and its decoder
  yields \<open>(n, v)\<close>.
\<close>

lemma analog_roundtrip:
  assumes "1 \<le> n" "n \<le> 1024" "0 \<le> v" "v \<le> 65535"
  shows "\<exists>d0 d1 d2 d3. analog_frame n v = Inr [d0, d1, d2, d3]
           \<and> frame_kind_of [d0, d1] = Inr AnalogFrame
           \<and> analog_join (uint d0) (uint d1) = n
           \<and> analog_value (uint d0) (uint d2) (uint d3) = v"
proof -
  let ?m = "n - 1"
  let ?d0 = "word_of_int (ana0 ?m v) :: byte"
  let ?d1 = "word_of_int (?m AND 127) :: byte"
  let ?d2 = "word_of_int (drop_bit 7 v AND 127) :: byte"
  let ?d3 = "word_of_int (v AND 127) :: byte"
  have m: "take_bit 10 ?m = ?m"
    using assms by (simp add: take_bit_int_eq_self)
  have v: "take_bit 16 v = v"
    using assms by (simp add: take_bit_int_eq_self)
  have b0: "192 OR (drop_bit 10 v AND 48) OR drop_bit 7 ?m = ana0 ?m v"
    by (simp add: ana0_def m v)
  have u0: "uint ?d0 = ana0 ?m v"
    using ana0_range [of ?m v] by (simp add: uint_pack_B)
  have u1: "uint ?d1 = ?m AND 127"
    using low7_range [of ?m] by (simp add: uint_pack_B)
  have u2: "uint ?d2 = drop_bit 7 v AND 127"
    using mid7_range [of v] by (simp add: uint_pack_B)
  have u3: "uint ?d3 = v AND 127"
    using low7_range [of v] by (simp add: uint_pack_B)
  have frame: "analog_frame n v = Inr [?d0, ?d1, ?d2, ?d3]"
    using ana0_range [of ?m v] low7_range [of ?m] mid7_range [of v] low7_range [of v]
    by (simp add: analog_frame_def b0 uint_pack_B)
  have kind: "frame_kind_of [?d0, ?d1] = Inr AnalogFrame"
    by (simp add: frame_kind_of_def header_test_def item_def u0 u1 ana0_not_digital
        ana0_analog low7_top)
  have j: "analog_join (uint ?d0) (uint ?d1) = n"
    using join_bits [of ?m] by (simp add: analog_join_def u0 u1 ana0_low m)
  have val: "analog_value (uint ?d0) (uint ?d2) (uint ?d3) = v"
    using ana0_value [of ?m v] by (simp add: analog_value_def u0 u2 u3 v)
  show ?thesis
    using frame kind j val by blast
qed

text \<open>Analog join 1 set to 1000: the decoded value is 1000.\<close>

lemma analog_roundtrip_join_1:
  "analog_frame 1 1000 = Inr [0xC0, 0x00, 0x07, 0x68]
   \<and> frame_kind_of [0xC0, 0x00] = Inr AnalogFrame
   \<and> analog_join (uint (0xC0 :: byte)) (uint (0x00 :: byte)) = 1
   \<and> analog_value (uint (0xC0 :: byte)) (uint (0x07 :: byte)) (uint (0x68 :: byte)) = 1000"
  using analog_roundtrip [of 1 1000]
  by (simp add: analog_frame_def pack_B_def analog_join_def analog_value_def
      frame_kind_of_def header_test_def item_def)

subsection \<open>The synced server is a state the handler reaches\<close>


lemma available_synced: "available synced"
  by (simp add: available_def synced_def)

lemma join_id_a1: "join_id CHR ''a'' 1 = ''a1''"
  by (simp add: join_id_def str_int_def str_nat.simps digit_char_def)


lemmas join_id_eval = join_id_def str_int_def str_nat.simps digit_char_def

lemmas setter_eval = set_digital_def set_digital_try_def set_analog_def set_analog_try_def
  set_serial_def set_serial_try_def reraise_def validate_join_def MAX_DIGITAL_JOIN_def
  MAX_ANALOG_JOIN_def available_def check_rate_limit_def MAX_JOIN_UPDATES_def
  put_command_def MAX_QUEUE_SIZE_def JOIN_UPDATE_WINDOW_def join_id_eval

lemmas command_eval = send_frame_def write_drain_def digital_frame_def analog_frame_def
  serial_frame_def pack_B_def update_join_def entry_def JoinState_def


subsection \<open>Joins beyond the join field of a frame\<close>

text \<open>
  Claim C1: for every digital join \<open>n\<close> in \<open>[1, 65535]\<close> and boolean \<open>v\<close>, decoding the two
  bytes of the encoder of \<^verbatim>\<open>set_digital\<close> with the digital decoder of the read loop yields
  \<open>(n, v)\<close>. The code fails it at join 4097: \<^verbatim>\<open>_validate_join\<close> accepts the join,
  \<^verbatim>\<open>set_digital(4097, True)\<close> returns with its command enqueued, the command writes
  \<open>0xA0 0x00\<close>, and the read loop takes these bytes for a digital frame of join 1 set OFF.
\<close>

theorem set_digital_4097:
  "validate_join 4097 ''d'' = Inr ()
   \<and> set_digital synced 100 4097 True
       = (synced\<lparr>join_update_times := (join_update_times synced)(''d4097'' := [100]),
                command_queue := [SendDigital 4097 True]\<rparr>, Returned)
   \<and> send_command synced True 101 (SendDigital 4097 True)
       = (synced\<lparr>trace := trace synced @ [Written [0xA0, 0x00]]\<rparr>, Inr ())
   \<and> frame_kind_of [0xA0, 0x00] = Inr DigitalFrame
   \<and> digital_join (uint (0xA0 :: byte)) (uint (0x00 :: byte)) = 1
   \<and> digital_value (uint (0xA0 :: byte)) = 0"
  by (simp add: setter_eval command_eval synced_def digital_join_def digital_value_def
      frame_kind_of_def header_test_def item_def)

text \<open>
  Claim C2: for every analog join \<open>n\<close> in \<open>[1, 65535]\<close> and value \<open>v\<close> in \<open>[0, 65535]\<close>,
  decoding the four bytes of the encoder of \<^verbatim>\<open>set_analog\<close> with the analog decoder of the
  read loop yields \<open>(n, v)\<close>, and join 1 with value 1000 decodes to 1000. The code fails it
  at join 1025: \<^verbatim>\<open>_validate_join\<close> accepts the join, \<^verbatim>\<open>set_analog(1025, 0)\<close> returns with its
  command enqueued, the command writes \<open>0xC8 0x00 0x00 0x00\<close> and records the value under
  the local join 1025, and the read loop takes the header \<open>0xC8 0x00\<close> for a serial frame
  of join 1 (the analog decoder would read join 1 as well).
\<close>

theorem set_analog_1025:
  "validate_join 1025 ''a'' = Inr ()
   \<and> set_analog synced 100 1025 0
       = (synced\<lparr>join_update_times := (join_update_times synced)(''a1025'' := [100]),
                command_queue := [SendAnalog 1025 0]\<rparr>, Returned)
   \<and> send_command synced True 101 (SendAnalog 1025 0)
       = (synced\<lparr>trace := trace synced @ [Written [0xC8, 0x00, 0x00, 0x00]],
                analog := [1025 \<mapsto> \<lparr>value' = PInt 0, last_update = 101, update_count = 1\<rparr>]\<rparr>,
          Inr ())
   \<and> frame_kind_of [0xC8, 0x00] = Inr SerialFrame
   \<and> analog_join (uint (0xC8 :: byte)) (uint (0x00 :: byte)) = 1"
  by (simp add: setter_eval command_eval synced_def analog_join_def
      frame_kind_of_def header_test_def item_def)

subsection \<open>Getters\<close>

lemma not_available_init: "\<not> available init"
  by (simp add: available_def init_def)

text \<open>
  Claim C5, as amended. When the connection is unavailable, for every join number
  \<^verbatim>\<open>get_digital\<close> returns \<^verbatim>\<open>False\<close>, \<^verbatim>\<open>get_analog\<close> returns \<^verbatim>\<open>None\<close> (not the analog zero)
  and \<^verbatim>\<open>get_serial\<close> returns the empty string; the server state is left as it is.
\<close>

theorem degrade_to_default:
  assumes "\<not> available s"
  shows "get_digital s j = (s, Inr (PBool False))
       \<and> get_analog s j = (s, Inr PNone)
       \<and> get_serial s j = (s, Inr (PStr []))"
  using assms
  by (simp add: get_digital_def get_digital_try_def get_analog_def get_analog_try_def
      get_serial_def get_serial_try_def split: sum.splits)

text \<open>
  A server whose flag is set but whose writer is closing is unavailable, whatever its tables hold.
\<close>

theorem degrade_to_default_witness:
  "get_digital (synced\<lparr>writer := Some (Writer True)\<rparr>) 5
     = (synced\<lparr>writer := Some (Writer True)\<rparr>, Inr (PBool False))
   \<and> get_analog (synced\<lparr>writer := Some (Writer True)\<rparr>) 5
     = (synced\<lparr>writer := Some (Writer True)\<rparr>, Inr PNone)
   \<and> get_serial (synced\<lparr>writer := Some (Writer True)\<rparr>) 5
     = (synced\<lparr>writer := Some (Writer True)\<rparr>, Inr (PStr []))"
  using degrade_to_default [of "synced\<lparr>writer := Some (Writer True)\<rparr>" 5]
  by (simp add: available_def)

text \<open>
  Claim C5 as stated fails for \<^verbatim>\<open>get_analog\<close>: on an unavailable server it returns
  \<^verbatim>\<open>None\<close> for the valid join 5, and \<^verbatim>\<open>None == 0\<close> is false.
\<close>

theorem degrade_to_default_counterexample:
  "\<not> available init \<and> validate_join 5 ''a'' = Inr ()
   \<and> snd (get_analog init 5) = Inr PNone \<and> \<not> py_eq PNone (PInt 0)"
  by (simp add: available_def init_def validate_join_def MAX_ANALOG_JOIN_def
      get_analog_def get_analog_try_def py_eq_def)

text \<open>
  Claim C10. For every integer join the three getters return a value and never raise:
  whatever the \<^verbatim>\<open>try\<close> body raises is replaced by the fallback (\<^verbatim>\<open>False\<close>, \<^verbatim>\<open>None\<close>,
  \<^verbatim>\<open>""\<close>), and for a join outside \<open>1..65535\<close> the validation of \<^verbatim>\<open>get_digital\<close> and
  \<^verbatim>\<open>get_analog\<close> does raise inside and the fallback is returned.
\<close>

theorem getters_never_raise:
  "(\<exists>v. snd (get_digital s j) = Inr v)
   \<and> (\<exists>v. snd (get_analog s j) = Inr v)
   \<and> (\<exists>v. snd (get_serial s j) = Inr v)
   \<and> (\<forall>e. snd (get_digital_try s j) = Inl e \<longrightarrow> snd (get_digital s j) = Inr (PBool False))
   \<and> (\<forall>e. snd (get_analog_try s j) = Inl e \<longrightarrow> snd (get_analog s j) = Inr PNone)
   \<and> (\<forall>e. snd (get_serial_try s j) = Inl e \<longrightarrow> snd (get_serial s j) = Inr (PStr []))
   \<and> (\<not> (0 < j \<and> j \<le> 65535) \<longrightarrow>
        (\<exists>e. snd (get_digital_try s j) = Inl e) \<and> snd (get_digital s j) = Inr (PBool False)
        \<and> (\<exists>e. snd (get_analog_try s j) = Inl e) \<and> snd (get_analog s j) = Inr PNone)"
  by (auto simp add: get_digital_def get_digital_try_def get_analog_def get_analog_try_def
      get_serial_def get_serial_try_def validate_join_def MAX_DIGITAL_JOIN_def
      MAX_ANALOG_JOIN_def split: sum.splits prod.splits)

text \<open>
  Joins 0 and 70000: the validation raises inside, the getters return their fallbacks.
\<close>

theorem getters_never_raise_witness:
  "snd (get_digital_try init 0) = Inl (Exc ValueError ''Invalid join number: Digital join exceeds maximum'' None)
   \<and> snd (get_digital init 0) = Inr (PBool False)
   \<and> snd (get_analog_try init 70000) = Inl (Exc ValueError ''Invalid join number: Analog join exceeds maximum'' None)
   \<and> snd (get_analog init 70000) = Inr PNone
   \<and> snd (get_serial init 0) = Inr (PStr [])"
  using getters_never_raise [of init 0] getters_never_raise [of init 70000]
  by (simp add: get_digital_try_def get_analog_try_def validate_join_def
      MAX_DIGITAL_JOIN_def MAX_ANALOG_JOIN_def get_serial_def get_serial_try_def
      available_def init_def)

subsection \<open>Exceptions of the setters\<close>

lemma reraise_cases:
  "reraise msg (s, out) = (s, case out of Raised e \<Rightarrow> Raised (Exc ConnectionError msg (Some e)) | Returned \<Rightarrow> Returned | Blocked \<Rightarrow> Blocked)"
  by (cases out) (simp_all add: reraise_def)

lemma snd_reraise:
  "snd (reraise msg r) = (case snd r of Raised e \<Rightarrow> Raised (Exc ConnectionError msg (Some e)) | Returned \<Rightarrow> Returned | Blocked \<Rightarrow> Blocked)"
  by (cases r) (simp add: reraise_cases)

lemma fst_reraise: "fst (reraise msg r) = fst r"
  by (cases r) (simp add: reraise_cases)

lemma raised_is_wrapped:
  "snd (reraise msg r) = Raised e \<Longrightarrow> \<exists>c. snd r = Raised c \<and> e = Exc ConnectionError msg (Some c)"
  by (cases "snd r") (simp_all add: snd_reraise)

lemma set_digital_invalid:
  "validate_join j ''d'' = Inl c \<Longrightarrow>
     snd (set_digital s now j b) = Raised (Exc ConnectionError ''Failed to send digital value'' (Some c))"
  by (simp add: set_digital_def set_digital_try_def snd_reraise)

lemma set_analog_invalid:
  "validate_join j ''a'' = Inl c \<Longrightarrow>
     snd (set_analog s now j v) = Raised (Exc ConnectionError ''Failed to send analog value'' (Some c))"
  by (simp add: set_analog_def set_analog_try_def snd_reraise)

lemma available_writer: "available s \<Longrightarrow> writer s \<noteq> None"
  by (cases "writer s") (simp_all add: available_def)

lemma set_digital_limited:
  assumes "available s" "validate_join j ''d'' = Inr ()"
    "\<not> snd (check_rate_limit s now (join_id CHR ''d'' j))"
  shows "set_digital s now j b
     = (fst (check_rate_limit s now (join_id CHR ''d'' j)),
        Raised (Exc ConnectionError ''Failed to send digital value'' (Some rate_exceeded)))"
  using assms available_writer [of s]
  by (cases "check_rate_limit s now (join_id CHR ''d'' j)")
    (auto simp add: set_digital_def set_digital_try_def reraise_cases)

lemma set_analog_limited:
  assumes "available s" "validate_join j ''a'' = Inr ()"
    "\<not> snd (check_rate_limit s now (join_id CHR ''a'' j))"
  shows "set_analog s now j v
     = (fst (check_rate_limit s now (join_id CHR ''a'' j)),
        Raised (Exc ConnectionError ''Failed to send analog value'' (Some rate_exceeded)))"
  using assms available_writer [of s]
  by (cases "check_rate_limit s now (join_id CHR ''a'' j)")
    (auto simp add: set_analog_def set_analog_try_def reraise_cases)

lemma set_serial_limited:
  assumes "available s" "length str \<le> 252"
    "\<not> snd (check_rate_limit s now (join_id CHR ''s'' j))"
  shows "set_serial s now j str
     = (fst (check_rate_limit s now (join_id CHR ''s'' j)),
        Raised (Exc ConnectionError ''Failed to send serial value'' (Some rate_exceeded)))"
  using assms available_writer [of s]
  by (cases "check_rate_limit s now (join_id CHR ''s'' j)")
    (auto simp add: set_serial_def set_serial_try_def reraise_cases)

lemma set_serial_too_long:
  assumes "available s" "length str > 252"
  shows "set_serial s now j str
     = (s, Raised (Exc ConnectionError ''Failed to send serial value'' (Some too_long)))"
  using assms available_writer [of s]
  by (auto simp add: set_serial_def set_serial_try_def reraise_cases)

text \<open>
  Claim C9. Whatever \<^verbatim>\<open>set_digital\<close>, \<^verbatim>\<open>set_analog\<close> or \<^verbatim>\<open>set_serial\<close> raises is a
  \<^verbatim>\<open>ConnectionError\<close> whose cause is the exception raised inside; this holds in particular
  for a join-number validation failure, a rate-limit rejection and the serial length check.
\<close>

theorem setters_raise_connection_error:
  "(\<forall>e. snd (set_digital s now j b) = Raised e \<longrightarrow>
      (\<exists>c. snd (set_digital_try s now j b) = Raised c
           \<and> e = Exc ConnectionError ''Failed to send digital value'' (Some c)))
   \<and> (\<forall>e. snd (set_analog s now j v) = Raised e \<longrightarrow>
      (\<exists>c. snd (set_analog_try s now j v) = Raised c
           \<and> e = Exc ConnectionError ''Failed to send analog value'' (Some c)))
   \<and> (\<forall>e. snd (set_serial s now j str) = Raised e \<longrightarrow>
      (\<exists>c. snd (set_serial_try s now j str) = Raised c
           \<and> e = Exc ConnectionError ''Failed to send serial value'' (Some c)))
   \<and> (\<forall>c. validate_join j ''d'' = Inl c \<longrightarrow>
        snd (set_digital s now j b)
          = Raised (Exc ConnectionError ''Failed to send digital value'' (Some c)))
   \<and> (\<forall>c. validate_join j ''a'' = Inl c \<longrightarrow>
        snd (set_analog s now j v)
          = Raised (Exc ConnectionError ''Failed to send analog value'' (Some c)))
   \<and> (available s \<and> validate_join j ''d'' = Inr ()
        \<and> \<not> snd (check_rate_limit s now (join_id CHR ''d'' j)) \<longrightarrow>
        snd (set_digital s now j b)
          = Raised (Exc ConnectionError ''Failed to send digital value'' (Some rate_exceeded)))
   \<and> (available s \<and> validate_join j ''a'' = Inr ()
        \<and> \<not> snd (check_rate_limit s now (join_id CHR ''a'' j)) \<longrightarrow>
        snd (set_analog s now j v)
          = Raised (Exc ConnectionError ''Failed to send analog value'' (Some rate_exceeded)))
   \<and> (available s \<and> length str \<le> 252
        \<and> \<not> snd (check_rate_limit s now (join_id CHR ''s'' j)) \<longrightarrow>
        snd (set_serial s now j str)
          = Raised (Exc ConnectionError ''Failed to send serial value'' (Some rate_exceeded)))
   \<and> (available s \<and> length str > 252 \<longrightarrow>
        snd (set_serial s now j str)
          = Raised (Exc ConnectionError ''Failed to send serial value'' (Some too_long)))"
proof (intro conjI allI impI)
  fix e assume "snd (set_digital s now j b) = Raised e"
  then show "\<exists>c. snd (set_digital_try s now j b) = Raised c
           \<and> e = Exc ConnectionError ''Failed to send digital value'' (Some c)"
    unfolding set_digital_def by (rule raised_is_wrapped)
next
  fix e assume "snd (set_analog s now j v) = Raised e"
  then show "\<exists>c. snd (set_analog_try s now j v) = Raised c
           \<and> e = Exc ConnectionError ''Failed to send analog value'' (Some c)"
    unfolding set_analog_def by (rule raised_is_wrapped)
next
  fix e assume "snd (set_serial s now j str) = Raised e"
  then show "\<exists>c. snd (set_serial_try s now j str) = Raised c
           \<and> e = Exc ConnectionError ''Failed to send serial value'' (Some c)"
    unfolding set_serial_def by (rule raised_is_wrapped)
qed (simp_all add: set_digital_invalid set_analog_invalid set_digital_limited
    set_analog_limited set_serial_limited set_serial_too_long)

text \<open>
  Join 0, join 65536, a string of 253 characters, and a server that is not available.
\<close>

theorem setters_raise_connection_error_witness:
  "snd (set_digital synced 100 0 True)
     = Raised (Exc ConnectionError ''Failed to send digital value''
         (Some (Exc ValueError ''Invalid join number: Digital join exceeds maximum'' None)))
   \<and> snd (set_analog synced 100 65536 7)
     = Raised (Exc ConnectionError ''Failed to send analog value''
         (Some (Exc ValueError ''Invalid join number: Analog join exceeds maximum'' None)))
   \<and> snd (set_serial synced 100 1 (replicate 253 65))
     = Raised (Exc ConnectionError ''Failed to send serial value''
         (Some (Exc ValueError ''String too long'' None)))
   \<and> snd (set_digital init 100 1 True)
     = Raised (Exc ConnectionError ''Failed to send digital value''
         (Some (Exc ConnectionError ''Server not available'' None)))"
  using setters_raise_connection_error [of synced 100 0 True 7 "replicate 253 65"]
    setters_raise_connection_error [of synced 100 65536 True 7 "replicate 253 65"]
    setters_raise_connection_error [of init 100 1 True 7 "replicate 253 65"]
  by (simp add: setter_eval synced_def init_def too_long_def not_available_def)

subsection \<open>Write-back policy\<close>

lemma send_digital_tables:
  "digital (fst (send_command s ok now (SendDigital j b))) = digital s
   \<and> analog (fst (send_command s ok now (SendDigital j b))) = analog s
   \<and> serial (fst (send_command s ok now (SendDigital j b))) = serial s"
  by (simp add: send_frame_def write_drain_def split: sum.splits option.splits)

lemma fst_send_frame_tables:
  "digital (fst (send_frame s ok fr)) = digital s
   \<and> analog (fst (send_frame s ok fr)) = analog s
   \<and> serial (fst (send_frame s ok fr)) = serial s"
  by (simp add: send_frame_def write_drain_def split: sum.splits option.splits)

lemma send_analog_updates:
  assumes "snd (send_command s ok now (SendAnalog j v)) = Inr ()"
  shows "analog (fst (send_command s ok now (SendAnalog j v))) = update_join (analog s) j (PInt v) now"
  using assms fst_send_frame_tables [of s ok "analog_frame j v"]
  by (cases "send_frame s ok (analog_frame j v)") (auto split: sum.splits)

lemma send_serial_updates:
  assumes "snd (send_command s ok now (SendSerial j str)) = Inr ()"
  shows "serial (fst (send_command s ok now (SendSerial j str))) = update_join (serial s) j (PStr str) now"
  using assms fst_send_frame_tables [of s ok "serial_frame j str"]
  by (cases "send_frame s ok (serial_frame j str)") (auto split: sum.splits)

lemma update_join_entry:
  "update_join tbl j x now j
     = Some \<lparr>value' = x, last_update = now, update_count = update_count (entry tbl j) + 1\<rparr>"
  by (simp add: update_join_def)

lemma check_rate_limit_tables:
  "digital (fst (check_rate_limit s now k)) = digital s
   \<and> analog (fst (check_rate_limit s now k)) = analog s
   \<and> serial (fst (check_rate_limit s now k)) = serial s
   \<and> command_queue (fst (check_rate_limit s now k)) = command_queue s
   \<and> trace (fst (check_rate_limit s now k)) = trace s"
  by (simp add: check_rate_limit_def Let_def)

lemma set_digital_returned:
  assumes "snd (set_digital s now j b) = Returned"
  shows "command_queue (fst (set_digital s now j b)) = command_queue s @ [SendDigital j b]
       \<and> digital (fst (set_digital s now j b)) = digital s"
  using assms check_rate_limit_tables [of s now "join_id CHR ''d'' j"]
  by (cases "check_rate_limit s now (join_id CHR ''d'' j)")
    (auto simp add: set_digital_def set_digital_try_def reraise_cases put_command_def
      split: sum.splits if_splits bool.splits)

lemma set_analog_returned:
  assumes "snd (set_analog s now j v) = Returned"
  shows "command_queue (fst (set_analog s now j v)) = command_queue s @ [SendAnalog j v]"
  using assms check_rate_limit_tables [of s now "join_id CHR ''a'' j"]
  by (cases "check_rate_limit s now (join_id CHR ''a'' j)")
    (auto simp add: set_analog_def set_analog_try_def reraise_cases put_command_def
      split: sum.splits if_splits bool.splits)

lemma set_serial_returned:
  assumes "snd (set_serial s now j str) = Returned"
  shows "command_queue (fst (set_serial s now j str)) = command_queue s @ [SendSerial j str]"
  using assms check_rate_limit_tables [of s now "join_id CHR ''s'' j"]
  by (cases "check_rate_limit s now (join_id CHR ''s'' j)")
    (auto simp add: set_serial_def set_serial_try_def reraise_cases put_command_def
      split: sum.splits if_splits bool.splits)

lemma digital_branch_updates:
  "digital (fst (digital_branch s i [d0, d1])) (digital_join (uint d0) (uint d1))
     = Some \<lparr>value' = PBool (digital_value (uint d0) = 1), last_update = clock i,
              update_count
                = update_count (entry (digital s) (digital_join (uint d0) (uint d1))) + 1\<rparr>"
  by (simp add: digital_branch_def Let_def notify_callbacks_def update_join_entry)

text \<open>
  Claim C6. The command \<^verbatim>\<open>set_digital\<close> enqueues leaves the local digital table unchanged
  when it runs (and so does \<^verbatim>\<open>set_digital\<close> itself); the digital entry is written when the
  read loop decodes a digital frame of the peer. The commands \<^verbatim>\<open>set_analog\<close> and
  \<^verbatim>\<open>set_serial\<close> enqueue, when they run to completion, set the entry of their join to the
  value sent, \<^verbatim>\<open>last_update\<close> to the clock reading, and add one to \<^verbatim>\<open>update_count\<close>.
\<close>

theorem write_back_policy:
  "(snd (set_digital s t j b) = Returned \<longrightarrow>
      command_queue (fst (set_digital s t j b)) = command_queue s @ [SendDigital j b]
      \<and> digital (fst (set_digital s t j b)) = digital s)
   \<and> digital (fst (send_command s' ok now (SendDigital j b))) = digital s'
   \<and> digital (fst (digital_branch s' i [d0, d1])) (digital_join (uint d0) (uint d1))
       = Some \<lparr>value' = PBool (digital_value (uint d0) = 1), last_update = clock i,
                update_count
                  = update_count (entry (digital s') (digital_join (uint d0) (uint d1))) + 1\<rparr>
   \<and> (snd (set_analog s t j v) = Returned \<longrightarrow>
      command_queue (fst (set_analog s t j v)) = command_queue s @ [SendAnalog j v])
   \<and> (snd (send_command s' ok now (SendAnalog j v)) = Inr () \<longrightarrow>
      analog (fst (send_command s' ok now (SendAnalog j v))) j
        = Some \<lparr>value' = PInt v, last_update = now,
                 update_count = update_count (entry (analog s') j) + 1\<rparr>)
   \<and> (snd (set_serial s t j str) = Returned \<longrightarrow>
      command_queue (fst (set_serial s t j str)) = command_queue s @ [SendSerial j str])
   \<and> (snd (send_command s' ok now (SendSerial j str)) = Inr () \<longrightarrow>
      serial (fst (send_command s' ok now (SendSerial j str))) j
        = Some \<lparr>value' = PStr str, last_update = now,
                 update_count = update_count (entry (serial s') j) + 1\<rparr>)"
  by (simp add: set_digital_returned set_analog_returned set_serial_returned
      send_digital_tables send_analog_updates send_serial_updates update_join_entry
      digital_branch_updates del: send_command.simps)

text \<open>
  On the synced server: the setters return and enqueue their command; running the digital
  command leaves the digital table empty, and decoding the frame \<open>0x80 0x00\<close> of the peer
  writes the entry of digital join 1; running the analog and serial commands creates the
  entry of join 1 with the value sent, the clock reading and an update count of 1.
\<close>

theorem write_back_policy_witness:
  "command_queue (fst (set_digital synced 100 1 True)) = [SendDigital 1 True]
   \<and> digital (fst (set_digital synced 100 1 True)) = Map.empty
   \<and> digital (fst (send_command synced True 101 (SendDigital 1 True))) = Map.empty
   \<and> digital (fst (digital_branch synced digital_in [0x80, 0x00])) 1
       = Some \<lparr>value' = PBool True, last_update = 99, update_count = 1\<rparr>
   \<and> command_queue (fst (set_analog synced 100 1 1000)) = [SendAnalog 1 1000]
   \<and> analog (fst (send_command synced True 101 (SendAnalog 1 1000))) 1
       = Some \<lparr>value' = PInt 1000, last_update = 101, update_count = 1\<rparr>
   \<and> command_queue (fst (set_serial synced 100 1 (ascii ''on''))) = [SendSerial 1 (ascii ''on'')]
   \<and> serial (fst (send_command synced True 101 (SendSerial 1 (ascii ''on'')))) 1
       = Some \<lparr>value' = PStr (ascii ''on''), last_update = 101, update_count = 1\<rparr>"
  using write_back_policy [of synced 100 1 True synced True 101 digital_in "0x80" "0x00" 1000
      "ascii ''on''"]
  by (simp add: setter_eval command_eval synced_def ascii_def encode_cp_def digital_in_def
      digital_join_def digital_value_def)



subsection \<open>Sliding window of the rate limiter\<close>

lemma expire_within:
  "ts = [] \<or> now - hd ts \<le> 1 \<Longrightarrow> expire now ts = ts"
  by (cases ts) (simp_all add: JOIN_UPDATE_WINDOW_def)

lemma expire_sorted:
  "sorted ts \<Longrightarrow> expire now ts = filter (\<lambda>t. now - t \<le> 1) ts"
proof (induction ts)
  case Nil
  then show ?case by simp
next
  case (Cons t ts)
  show ?case
  proof (cases "now - t > 1")
    case True
    with Cons show ?thesis by (simp add: JOIN_UPDATE_WINDOW_def)
  next
    case False
    from Cons.prems have "\<forall>x \<in> set ts. t \<le> x" by simp
    with False have "\<forall>x \<in> set ts. now - x \<le> 1" by auto
    then have "filter (\<lambda>t. now - t \<le> 1) ts = ts" by simp
    with False show ?thesis by (simp add: JOIN_UPDATE_WINDOW_def)
  qed
qed

lemma check_rate_limit_full:
  assumes "length (join_update_times s k) \<ge> 1000" "\<forall>t \<in> set (join_update_times s k). now - t \<le> 1"
  shows "check_rate_limit s now k = (s, False)"
proof -
  have "join_update_times s k \<noteq> []" using assms(1) by auto
  then have "now - hd (join_update_times s k) \<le> 1" using assms(2) by simp
  then have e: "expire now (join_update_times s k) = join_update_times s k"
    by (simp add: expire_within)
  show ?thesis using assms(1) by (simp add: check_rate_limit_def e MAX_JOIN_UPDATES_def)
qed

lemma check_rate_limit_admits:
  assumes "length (expire now (join_update_times s k)) < 1000"
  shows "check_rate_limit s now k
     = (s\<lparr>join_update_times := (join_update_times s)(k := expire now (join_update_times s k) @ [now])\<rparr>, True)"
  using assms by (simp add: check_rate_limit_def MAX_JOIN_UPDATES_def Let_def)

lemma set_digital_rejected:
  assumes "available s" "validate_join j ''d'' = Inr ()"
    "length (join_update_times s (join_id CHR ''d'' j)) \<ge> 1000"
    "\<forall>t \<in> set (join_update_times s (join_id CHR ''d'' j)). now - t \<le> 1"
  shows "set_digital s now j b
     = (s, Raised (Exc ConnectionError ''Failed to send digital value'' (Some rate_exceeded)))"
  using set_digital_limited [OF assms(1,2), of now b] check_rate_limit_full [OF assms(3,4)]
  by simp

lemma set_analog_rejected:
  assumes "available s" "validate_join j ''a'' = Inr ()"
    "length (join_update_times s (join_id CHR ''a'' j)) \<ge> 1000"
    "\<forall>t \<in> set (join_update_times s (join_id CHR ''a'' j)). now - t \<le> 1"
  shows "set_analog s now j v
     = (s, Raised (Exc ConnectionError ''Failed to send analog value'' (Some rate_exceeded)))"
  using set_analog_limited [OF assms(1,2), of now v] check_rate_limit_full [OF assms(3,4)]
  by simp

lemma set_serial_rejected:
  assumes "available s" "length str \<le> 252"
    "length (join_update_times s (join_id CHR ''s'' j)) \<ge> 1000"
    "\<forall>t \<in> set (join_update_times s (join_id CHR ''s'' j)). now - t \<le> 1"
  shows "set_serial s now j str
     = (s, Raised (Exc ConnectionError ''Failed to send serial value'' (Some rate_exceeded)))"
  using set_serial_limited [OF assms(1,2), of now j] check_rate_limit_full [OF assms(3,4)]
  by simp

lemma set_digital_admitted:
  assumes "available s" "validate_join j ''d'' = Inr ()"
    "length (expire now (join_update_times s (join_id CHR ''d'' j))) < 1000"
    "length (command_queue s) < 100"
  shows "set_digital s now j b
     = (s\<lparr>join_update_times := (join_update_times s)
            (join_id CHR ''d'' j := expire now (join_update_times s (join_id CHR ''d'' j)) @ [now]),
          command_queue := command_queue s @ [SendDigital j b]\<rparr>, Returned)"
  using assms(1,2,4) available_writer [OF assms(1)] check_rate_limit_admits [OF assms(3)]
  by (auto simp add: set_digital_def set_digital_try_def reraise_cases put_command_def
      MAX_QUEUE_SIZE_def)

lemma set_analog_admitted:
  assumes "available s" "validate_join j ''a'' = Inr ()"
    "length (expire now (join_update_times s (join_id CHR ''a'' j))) < 1000"
    "length (command_queue s) < 100"
  shows "set_analog s now j v
     = (s\<lparr>join_update_times := (join_update_times s)
            (join_id CHR ''a'' j := expire now (join_update_times s (join_id CHR ''a'' j)) @ [now]),
          command_queue := command_queue s @ [SendAnalog j v]\<rparr>, Returned)"
  using assms(1,2,4) available_writer [OF assms(1)] check_rate_limit_admits [OF assms(3)]
  by (auto simp add: set_analog_def set_analog_try_def reraise_cases put_command_def
      MAX_QUEUE_SIZE_def)

lemma set_serial_admitted:
  assumes "available s" "length str \<le> 252"
    "length (expire now (join_update_times s (join_id CHR ''s'' j))) < 1000"
    "length (command_queue s) < 100"
  shows "set_serial s now j str
     = (s\<lparr>join_update_times := (join_update_times s)
            (join_id CHR ''s'' j := expire now (join_update_times s (join_id CHR ''s'' j)) @ [now]),
          command_queue := command_queue s @ [SendSerial j str]\<rparr>, Returned)"
  using assms(1,2,4) available_writer [OF assms(1)] check_rate_limit_admits [OF assms(3)]
  by (auto simp add: set_serial_def set_serial_try_def reraise_cases put_command_def
      MAX_QUEUE_SIZE_def)

subsection \<open>Join ids and system events\<close>

lemma str_nat_last: "str_nat n \<noteq> [] \<and> last (str_nat n) = digit_char (n mod 10)"
  by (subst (1 2) str_nat.simps) simp

lemma digit_char_not_m: "digit_char (n mod 10) \<noteq> CHR ''m''"
proof -
  have "n mod 10 < 10" by simp
  then have "n mod 10 \<in> {0, 1, 2, 3, 4, 5, 6, 7, 8, 9}" by (simp only: insert_iff empty_iff) arith
  then show ?thesis by (auto simp add: digit_char_def)
qed

lemma str_int_not_ystem: "str_int j \<noteq> ''ystem''"
proof
  assume a: "str_int j = ''ystem''"
  have "last (str_int j) \<noteq> CHR ''m''"
    using str_nat_last digit_char_not_m by (simp add: str_int_def)
  with a show False by simp
qed

lemma join_id_not_system:
  "join_id CHR ''d'' j \<noteq> ''system''" "join_id CHR ''a'' j \<noteq> ''system''"
  "join_id CHR ''s'' j \<noteq> ''system''"
  using str_int_not_ystem [of j] by (simp_all add: join_id_def)

lemma system_events_append [simp]:
  "system_events v (xs @ ys) = system_events v xs + system_events v ys"
  by (simp add: system_events_def)

lemma system_events_notify:
  "system_events v (trace (notify_callbacks s k x))
     = system_events v (trace s) + (if k = ''system'' \<and> x = v then 1 else 0)"
  by (simp add: notify_callbacks_def system_events_def)

lemma notify_fields [simp]:
  "writer (notify_callbacks s k x) = writer s"
  "reader (notify_callbacks s k x) = reader s"
  "available_flag (notify_callbacks s k x) = available_flag s"
  "command_queue (notify_callbacks s k x) = command_queue s"
  "command_event (notify_callbacks s k x) = command_event s"
  "digital (notify_callbacks s k x) = digital s"
  "analog (notify_callbacks s k x) = analog s"
  "serial (notify_callbacks s k x) = serial s"
  "join_update_times (notify_callbacks s k x) = join_update_times s"
  "join_callbacks (notify_callbacks s k x) = join_callbacks s"
  "global_callbacks (notify_callbacks s k x) = global_callbacks s"
  "sync_all_joins_callback (notify_callbacks s k x) = sync_all_joins_callback s"
  "initial_sync_received (notify_callbacks s k x) = initial_sync_received s"
  "initial_sync_event (notify_callbacks s k x) = initial_sync_event s"
  "last_sync_request (notify_callbacks s k x) = last_sync_request s"
  by (simp_all add: notify_callbacks_def)

lemma quiet_refl [simp]: "quiet s s"
  by (simp add: quiet_def)

lemma digital_branch_quiet: "quiet s (fst (digital_branch s i data))"
  by (simp add: digital_branch_def quiet_def Let_def system_events_notify join_id_not_system
      split: list.splits)

lemma analog_branch_quiet: "quiet s (fst (analog_branch s i data))"
  by (simp add: analog_branch_def quiet_def Let_def system_events_notify join_id_not_system
      split: list.splits)

lemma serial_branch_quiet: "quiet s (fst (serial_branch s i data))"
  by (simp add: serial_branch_def quiet_def Let_def system_events_notify join_id_not_system
      split: list.splits option.splits)

lemma frame_branch_quiet: "quiet s (fst (frame_branch s i data))"
  by (simp add: frame_branch_def digital_branch_quiet analog_branch_quiet serial_branch_quiet
      split: sum.splits frame_kind.splits read_res.splits)

subsection \<open>Branches of the read loop\<close>

lemma steady_refl [simp]: "steady s s"
  by (simp add: steady_def)

lemma steady_trans: "steady a b \<Longrightarrow> steady b c \<Longrightarrow> steady a c"
  by (simp add: steady_def)

lemma quiet_steady: "quiet s s' \<Longrightarrow> steady s s'"
  by (simp add: quiet_def steady_def)



lemma mark_disconnected_facts:
  "steady s (mark_disconnected s)"
  "\<not> available_flag (mark_disconnected s)"
  "\<not> command_event (mark_disconnected s)"
  "initial_sync_received (mark_disconnected s) = initial_sync_received s"
  "last_sync_request (mark_disconnected s) = last_sync_request s"
  "digital (mark_disconnected s) = digital s"
  "analog (mark_disconnected s) = analog s"
  "serial (mark_disconnected s) = serial s"
  "trace (mark_disconnected s)
     = trace s @ [Notified ''system'' (ascii ''disconnected'') (callbacks_for s ''system'')]"
  by (simp_all add: mark_disconnected_def steady_def notify_callbacks_def callbacks_for_def)



lemma sync_all_hook_facts:
  "steady s (fst (sync_all_hook s i))"
  "available_flag (fst (sync_all_hook s i)) = available_flag s"
  "command_event (fst (sync_all_hook s i)) = command_event s"
  "initial_sync_received (fst (sync_all_hook s i)) = initial_sync_received s"
  "last_sync_request (fst (sync_all_hook s i)) = last_sync_request s"
  "system_events v (trace (fst (sync_all_hook s i))) = system_events v (trace s)"
  by (simp_all add: sync_all_hook_def steady_def system_events_def split: option.splits)



lemma sync_branch_steady: "steady s (fst (sync_branch s i))"
  using sync_all_hook_facts(1) [where i = i]
  apply (simp add: sync_branch_def Let_def first_sync_def write_drain_def split: prod.splits sum.splits)
  apply (auto simp add: steady_def sync_all_hook_def split: option.splits)
  done

lemma loop_iteration_cases:
  "loop_iteration s i =
     (case read1 i of
        Fails \<Rightarrow> (mark_disconnected s, False)
      | Got [] \<Rightarrow> (mark_disconnected s, False)
      | Got (b # bs) \<Rightarrow>
          if uint b = 0xFB
          then (case sync_branch s i of
                  (s1, Inl e) \<Rightarrow> (mark_disconnected s1, False)
                | (s1, Inr u) \<Rightarrow> (s1, True))
          else (case read2 i of
                  Fails \<Rightarrow> (mark_disconnected s, False)
                | Got extra \<Rightarrow>
                    (case frame_branch s i (b # bs @ extra) of
                       (s1, Inl e) \<Rightarrow> (mark_disconnected s1, False)
                     | (s1, Inr u) \<Rightarrow> (s1, True))))"
  by (simp add: loop_iteration_def loop_try_def
      split: read_res.splits list.splits prod.splits sum.splits)

lemma loop_iteration_eof:
  "read1 i = Got [] \<Longrightarrow> loop_iteration s i = (mark_disconnected s, False)"
  by (simp add: loop_iteration_cases)

lemma loop_iteration_sync:
  "sync_pass i \<Longrightarrow>
     loop_iteration s i =
       (case sync_branch s i of
          (s1, Inl e) \<Rightarrow> (mark_disconnected s1, False)
        | (s1, Inr u) \<Rightarrow> (s1, True))"
  by (auto simp add: loop_iteration_cases sync_pass_def split: read_res.splits list.splits)

lemma loop_iteration_data:
  assumes "\<not> sync_pass i"
  shows "\<exists>s1. quiet s s1
           \<and> (loop_iteration s i = (s1, True) \<or> loop_iteration s i = (mark_disconnected s1, False))"
proof (cases "read1 i")
  case Fails
  then have "loop_iteration s i = (mark_disconnected s, False)"
    by (simp add: loop_iteration_cases)
  then show ?thesis using quiet_refl by blast
next
  case (Got data)
  show ?thesis
  proof (cases data)
    case Nil
    with Got have "loop_iteration s i = (mark_disconnected s, False)"
      by (simp add: loop_iteration_cases)
    then show ?thesis using quiet_refl by blast
  next
    case (Cons b bs)
    with Got assms have nb: "uint b \<noteq> 0xFB" by (simp add: sync_pass_def)
    show ?thesis
    proof (cases "read2 i")
      case Fails
      with Got Cons nb have "loop_iteration s i = (mark_disconnected s, False)"
        by (simp add: loop_iteration_cases)
      then show ?thesis using quiet_refl by blast
    next
      case (Got extra)
      obtain s1 r where fb: "frame_branch s i (b # bs @ extra) = (s1, r)"
        by (cases "frame_branch s i (b # bs @ extra)")
      have q: "quiet s s1" using frame_branch_quiet [of s i "b # bs @ extra"] fb by simp
      have "loop_iteration s i = (s1, True) \<or> loop_iteration s i = (mark_disconnected s1, False)"
        using \<open>read1 i = Got data\<close> Cons nb Got fb
        by (cases r) (simp_all add: loop_iteration_cases)
      with q show ?thesis by blast
    qed
  qed
qed

lemma loop_iteration_steady: "steady s (fst (loop_iteration s i))"
proof (cases "sync_pass i")
  case True
  obtain s1 r where sb: "sync_branch s i = (s1, r)" by (cases "sync_branch s i")
  have "steady s s1" using sync_branch_steady [of s i] sb by simp
  moreover have "steady s1 (mark_disconnected s1)" by (rule mark_disconnected_facts)
  ultimately show ?thesis
    using True sb by (cases r) (auto simp add: loop_iteration_sync intro: steady_trans)
next
  case False
  from loop_iteration_data [OF False, of s] obtain s1 where
    q: "quiet s s1" and
    c: "loop_iteration s i = (s1, True) \<or> loop_iteration s i = (mark_disconnected s1, False)"
    by blast
  have "steady s s1" using q by (rule quiet_steady)
  moreover have "steady s1 (mark_disconnected s1)" by (rule mark_disconnected_facts)
  ultimately show ?thesis using c by (auto intro: steady_trans)
qed

lemma read_loop_steady: "steady s (fst (read_loop s ins))"
proof (induction ins arbitrary: s)
  case Nil
  show ?case by simp
next
  case (Cons i ins)
  obtain s1 c where li: "loop_iteration s i = (s1, c)" by (cases "loop_iteration s i")
  have a: "steady s s1" using loop_iteration_steady [of s i] li by simp
  show ?case
  proof (cases c)
    case True
    with li a Cons.IH [of s1] show ?thesis by (auto intro: steady_trans)
  next
    case False
    with li a show ?thesis by simp
  qed
qed

lemma read_loop_append:
  "read_loop s (ins @ [i]) =
     (case read_loop s ins of
        (s1, True) \<Rightarrow> loop_iteration s1 i
      | (s1, False) \<Rightarrow> (s1, False))"
proof (induction ins arbitrary: s)
  case Nil
  show ?case by (cases "loop_iteration s i") (auto split: bool.splits)
next
  case (Cons p ins)
  show ?case
    by (cases "loop_iteration s p") (auto simp add: Cons.IH split: bool.splits)
qed

subsection \<open>Rate limiting\<close>

lemma expire_replicate:
  "expire now (replicate n t) = (if now - t > 1 then [] else replicate n t)"
  by (induction n) (simp_all add: JOIN_UPDATE_WINDOW_def)

lemma loop_iteration_limiter:
  "join_update_times (fst (loop_iteration s i)) = join_update_times s"
  using loop_iteration_steady [of s i] by (simp add: steady_def)

lemma read_loop_limiter:
  "join_update_times (fst (read_loop s ins)) = join_update_times s"
  using read_loop_steady [of s ins] by (simp add: steady_def)

text \<open>
  Claim C7, as amended. For a join id with 1000 sends recorded within the trailing
  window of one second, the next \<^verbatim>\<open>set_digital\<close>, \<^verbatim>\<open>set_analog\<close> or \<^verbatim>\<open>set_serial\<close> is
  rejected: the rate-limit error (a \<^verbatim>\<open>HomeAssistantError\<close>) is raised inside the setter and
  reaches the caller as the cause of a \<^verbatim>\<open>ConnectionError\<close>, and the server state, in particular
  the list of timestamps, is as before. Once fewer than 1000 timestamps remain after expiry
  the set is admitted (the queue having room): its timestamp is recorded and its command
  enqueued. On a time-ordered list, expiry keeps the timestamps within the window. The
  passes of the read loop never change the limiter.
\<close>

theorem rate_limiting:
  "(available s \<and> validate_join j ''d'' = Inr ()
      \<and> 1000 \<le> length (join_update_times s (join_id CHR ''d'' j))
      \<and> (\<forall>t \<in> set (join_update_times s (join_id CHR ''d'' j)). now - t \<le> 1)
     \<longrightarrow> set_digital s now j b
          = (s, Raised (Exc ConnectionError ''Failed to send digital value'' (Some rate_exceeded))))
   \<and> (available s \<and> validate_join j ''a'' = Inr ()
      \<and> 1000 \<le> length (join_update_times s (join_id CHR ''a'' j))
      \<and> (\<forall>t \<in> set (join_update_times s (join_id CHR ''a'' j)). now - t \<le> 1)
     \<longrightarrow> set_analog s now j v
          = (s, Raised (Exc ConnectionError ''Failed to send analog value'' (Some rate_exceeded))))
   \<and> (available s \<and> length str \<le> 252
      \<and> 1000 \<le> length (join_update_times s (join_id CHR ''s'' j))
      \<and> (\<forall>t \<in> set (join_update_times s (join_id CHR ''s'' j)). now - t \<le> 1)
     \<longrightarrow> set_serial s now j str
          = (s, Raised (Exc ConnectionError ''Failed to send serial value'' (Some rate_exceeded))))
   \<and> (available s \<and> validate_join j ''d'' = Inr ()
      \<and> length (expire now (join_update_times s (join_id CHR ''d'' j))) < 1000
      \<and> length (command_queue s) < 100
     \<longrightarrow> set_digital s now j b
          = (s\<lparr>join_update_times := (join_update_times s)
                 (join_id CHR ''d'' j :=
                    expire now (join_update_times s (join_id CHR ''d'' j)) @ [now]),
               command_queue := command_queue s @ [SendDigital j b]\<rparr>, Returned))
   \<and> (available s \<and> validate_join j ''a'' = Inr ()
      \<and> length (expire now (join_update_times s (join_id CHR ''a'' j))) < 1000
      \<and> length (command_queue s) < 100
     \<longrightarrow> set_analog s now j v
          = (s\<lparr>join_update_times := (join_update_times s)
                 (join_id CHR ''a'' j :=
                    expire now (join_update_times s (join_id CHR ''a'' j)) @ [now]),
               command_queue := command_queue s @ [SendAnalog j v]\<rparr>, Returned))
   \<and> (available s \<and> length str \<le> 252
      \<and> length (expire now (join_update_times s (join_id CHR ''s'' j))) < 1000
      \<and> length (command_queue s) < 100
     \<longrightarrow> set_serial s now j str
          = (s\<lparr>join_update_times := (join_update_times s)
                 (join_id CHR ''s'' j :=
                    expire now (join_update_times s (join_id CHR ''s'' j)) @ [now]),
               command_queue := command_queue s @ [SendSerial j str]\<rparr>, Returned))
   \<and> (sorted ts \<longrightarrow> expire now ts = filter (\<lambda>t. now - t \<le> 1) ts)
   \<and> join_update_times (fst (loop_iteration s i)) = join_update_times s
   \<and> join_update_times (fst (read_loop s ins)) = join_update_times s"
proof (intro conjI impI)
  show "join_update_times (fst (loop_iteration s i)) = join_update_times s"
    by (rule loop_iteration_limiter)
  show "join_update_times (fst (read_loop s ins)) = join_update_times s"
    by (rule read_loop_limiter)
qed (simp_all add: set_digital_rejected set_analog_rejected set_serial_rejected
    set_digital_admitted set_analog_admitted set_serial_admitted expire_sorted)

lemma join_update_times_limited:
  "join_update_times limited ''d1'' = replicate 1000 (199 / 2)"
  "join_update_times limited ''a1'' = replicate 1000 (199 / 2)"
  "join_update_times limited ''s1'' = replicate 1000 (199 / 2)"
  by (simp_all add: limited_def)

lemma limited_fields:
  "available limited" "command_queue limited = []"
  by (simp_all add: limited_def synced_def available_def)

lemma join_id_1:
  "join_id CHR ''d'' 1 = ''d1''" "join_id CHR ''a'' 1 = ''a1''" "join_id CHR ''s'' 1 = ''s1''"
  by (simp_all add: join_id_eval)

text \<open>
  At clock 100 the three setters are rejected on the server at its limit; at clock 101 the
  1000 timestamps of 99.5 have expired and the setters are admitted.
\<close>

theorem rate_limiting_witness:
  "set_digital limited 100 1 True
     = (limited, Raised (Exc ConnectionError ''Failed to send digital value'' (Some rate_exceeded)))
   \<and> set_analog limited 100 1 5
     = (limited, Raised (Exc ConnectionError ''Failed to send analog value'' (Some rate_exceeded)))
   \<and> set_serial limited 100 1 (ascii ''on'')
     = (limited, Raised (Exc ConnectionError ''Failed to send serial value'' (Some rate_exceeded)))
   \<and> set_digital limited 101 1 True
     = (limited\<lparr>join_update_times := (join_update_times limited)(''d1'' := [101]),
               command_queue := [SendDigital 1 True]\<rparr>, Returned)
   \<and> set_analog limited 101 1 5
     = (limited\<lparr>join_update_times := (join_update_times limited)(''a1'' := [101]),
               command_queue := [SendAnalog 1 5]\<rparr>, Returned)
   \<and> set_serial limited 101 1 (ascii ''on'')
     = (limited\<lparr>join_update_times := (join_update_times limited)(''s1'' := [101]),
               command_queue := [SendSerial 1 (ascii ''on'')]\<rparr>, Returned)
   \<and> expire 3 [1, 2, 3] = [2, 3]"
  using rate_limiting [of limited 1 100 True 5 "ascii ''on''" "[1, 2, 3]"]
    rate_limiting [of limited 1 101 True 5 "ascii ''on''" "[1, 2, 3]"]
    rate_limiting [of limited 1 3 True 5 "ascii ''on''" "[1, 2, 3]"]
  by (simp add: join_id_1 join_update_times_limited limited_fields expire_replicate
      validate_join_def MAX_DIGITAL_JOIN_def MAX_ANALOG_JOIN_def ascii_def)

text \<open>
  Claim C7 as stated names the error of the 1001st set a rate-limit error; what the
  caller receives is a \<^verbatim>\<open>ConnectionError\<close>, with the rate-limit error as its cause.
\<close>

theorem rate_limiting_counterexample:
  "snd (set_analog limited 100 1 5)
     = Raised (Exc ConnectionError ''Failed to send analog value''
         (Some (Exc HomeAssistantError ''Join update rate exceeded'' None)))
   \<and> snd (set_analog limited 100 1 5)
     \<noteq> Raised (Exc HomeAssistantError ''Join update rate exceeded'' None)"
  by (simp add: setter_eval limited_def synced_def expire_replicate Let_def rate_exceeded_def)

subsection \<open>Serial length limit\<close>

lemma set_serial_unavailable:
  assumes "\<not> available s"
  shows "set_serial s now j str
     = (s, Raised (Exc ConnectionError ''Failed to send serial value'' (Some not_available)))"
  using assms by (simp add: set_serial_def set_serial_try_def reraise_cases)

text \<open>
  Claim C8, as amended. \<^verbatim>\<open>set_serial\<close> with a string of more than 252 characters fails
  with a \<^verbatim>\<open>ConnectionError\<close>, whose cause is the \<^verbatim>\<open>ValueError\<close> of the length check when the
  server is available (and the not-available error otherwise), and the server state is
  unchanged: no command is enqueued and nothing is written.
\<close>

theorem serial_length_limit:
  assumes "length str > 252"
  shows "\<exists>c. set_serial s now j str
             = (s, Raised (Exc ConnectionError ''Failed to send serial value'' (Some c)))
           \<and> (available s \<longrightarrow> c = too_long)
           \<and> (\<not> available s \<longrightarrow> c = not_available)"
proof (cases "available s")
  case True
  then show ?thesis using set_serial_too_long [OF True assms, of now j] by simp
next
  case False
  then show ?thesis using set_serial_unavailable [OF False, of now j str] by simp
qed

text \<open>
  A string of 253 characters on the synced server.
\<close>

theorem serial_length_limit_witness:
  "set_serial synced 100 1 (replicate 253 65)
     = (synced, Raised (Exc ConnectionError ''Failed to send serial value''
                  (Some (Exc ValueError ''String too long'' None))))
   \<and> command_queue synced = [] \<and> length (replicate 253 (65::nat)) = 253"
  using serial_length_limit [of "replicate 253 65" synced 100 1] available_synced
  by (simp add: too_long_def synced_def)

lemma encode_replicate_4:
  assumes "0x10000 \<le> cp" "cp \<le> 0x10FFFF"
  shows "map_sum exc_class_of length (encode (replicate n cp)) = Inr (4 * n)"
  using assms by (induction n) (auto simp add: encode_cp_def split: sum.splits)

text \<open>
  Claim C8 as stated measures the encoded payload: a string of 64 characters of four
  UTF-8 bytes each encodes to 256 bytes, passes the length check and is enqueued.
\<close>

theorem serial_length_limit_counterexample:
  "length (replicate 64 (0x1F600::nat)) = 64
   \<and> map_sum exc_class_of length (encode (replicate 64 0x1F600)) = Inr 256
   \<and> set_serial synced 100 1 (replicate 64 0x1F600)
     = (synced\<lparr>join_update_times := (join_update_times synced)(''s1'' := [100]),
              command_queue := [SendSerial 1 (replicate 64 0x1F600)]\<rparr>, Returned)"
  using set_serial_admitted [of synced "replicate 64 0x1F600" 100 1] available_synced
  by (simp add: encode_replicate_4 join_id_1 synced_def)


subsection \<open>Disconnect at end of stream\<close>

lemma connection_made_facts:
  "digital (fst (connection_made s ok)) = Map.empty"
  "analog (fst (connection_made s ok)) = Map.empty"
  "serial (fst (connection_made s ok)) = Map.empty"
  "writer (fst (connection_made s ok)) = Some (Writer False)"
  "available_flag (fst (connection_made s ok)) = available_flag s"
  "\<not> initial_sync_received (fst (connection_made s ok))"
  "last_sync_request (fst (connection_made s ok)) = 0"
  "global_callbacks (fst (connection_made s ok)) = global_callbacks s"
  "join_callbacks (fst (connection_made s ok)) = join_callbacks s"
  "sync_all_joins_callback (fst (connection_made s ok)) = sync_all_joins_callback s"
  "system_events v (trace (fst (connection_made s ok))) = system_events v (trace s)"
  by (simp_all add: connection_made_def write_drain_def system_events_def)

lemma connection_cleanup_facts:
  "\<not> available_flag (connection_cleanup s)"
  "\<not> available (connection_cleanup s)"
  "writer (connection_cleanup s) = None"
  "digital (connection_cleanup s) = digital s"
  "analog (connection_cleanup s) = analog s"
  "serial (connection_cleanup s) = serial s"
  "\<exists>later. trace (connection_cleanup s) = trace s @ later"
  by (simp_all add: connection_cleanup_def available_def notify_callbacks_def Let_def
      split: option.splits)

lemma not_available_flag: "\<not> available_flag s \<Longrightarrow> \<not> available s"
  by (simp add: available_def)

lemma handle_connection_eof:
  assumes "connection_made s0 ok = (sa, Inr ())" "read_loop sa ins = (s, True)"
    "read1 i = Got []"
  shows "handle_connection s0 ok (ins @ [i]) = (connection_cleanup (mark_disconnected s), True)"
  using assms by (simp add: handle_connection_def read_loop_append loop_iteration_eof)

text \<open>
  Claim C3, as amended. When the read of a pass returns end of stream on a connection that
  was accepted and is still being read, the loop ends with the available flag false, and it
  stays false when the handler returns; the pass delivers one \<^verbatim>\<open>"disconnected"\<close> event to
  the system callbacks, and that event stays in the trace of the handler; the three
  JoinState tables keep their contents through the disconnect and are cleared when the next
  connection is accepted.
\<close>

theorem disconnect_on_eof:
  assumes "connection_made s0 ok = (sa, Inr ())" and "read_loop sa ins = (s, True)"
    and "read1 i = Got []"
  shows "\<exists>s1 s2. loop_iteration s i = (s1, False)
           \<and> handle_connection s0 ok (ins @ [i]) = (s2, True)
           \<and> \<not> available s1 \<and> \<not> available s2
           \<and> trace s1 = trace s
                @ [Notified ''system'' (ascii ''disconnected'') (callbacks_for s ''system'')]
           \<and> set (global_callbacks s) \<subseteq> set (callbacks_for s ''system'')
           \<and> (\<exists>later. trace s2 = trace s1 @ later)
           \<and> digital s2 = digital s \<and> analog s2 = analog s \<and> serial s2 = serial s
           \<and> (\<forall>ok'. digital (fst (connection_made s2 ok')) = Map.empty
                    \<and> analog (fst (connection_made s2 ok')) = Map.empty
                    \<and> serial (fst (connection_made s2 ok')) = Map.empty)"
proof -
  let ?s1 = "mark_disconnected s"
  let ?s2 = "connection_cleanup ?s1"
  have a: "loop_iteration s i = (?s1, False)"
    using assms(3) by (rule loop_iteration_eof)
  have b: "handle_connection s0 ok (ins @ [i]) = (?s2, True)"
    using assms by (rule handle_connection_eof)
  have c: "\<not> available ?s1" "\<not> available ?s2"
    by (simp_all add: mark_disconnected_facts not_available_flag connection_cleanup_facts)
  have d: "trace ?s1 = trace s
      @ [Notified ''system'' (ascii ''disconnected'') (callbacks_for s ''system'')]"
    by (rule mark_disconnected_facts)
  have e: "set (global_callbacks s) \<subseteq> set (callbacks_for s ''system'')"
    by (simp add: callbacks_for_def)
  have f: "\<exists>later. trace ?s2 = trace ?s1 @ later"
    by (rule connection_cleanup_facts)
  have g: "digital ?s2 = digital s" "analog ?s2 = analog s" "serial ?s2 = serial s"
    by (simp_all add: connection_cleanup_facts mark_disconnected_facts)
  have h: "\<forall>ok'. digital (fst (connection_made ?s2 ok')) = Map.empty
      \<and> analog (fst (connection_made ?s2 ok')) = Map.empty
      \<and> serial (fst (connection_made ?s2 ok')) = Map.empty"
    by (simp add: connection_made_facts)
  show ?thesis
    using a b c d e f g h by blast
qed

lemma handler_returns_idle:
  "snd (handle_connection s ok ins) \<Longrightarrow> \<not> available_flag (fst (handle_connection s ok ins))"
  by (auto simp add: handle_connection_def connection_cleanup_facts
      split: prod.splits sum.splits bool.splits)


lemmas handler_eval = handle_connection_def connection_made_def write_drain_def
  loop_iteration_def loop_try_def frame_branch_def frame_kind_of_def header_test_def item_def
  digital_branch_def digital_join_def digital_value_def update_join_def entry_def
  JoinState_def notify_callbacks_def callbacks_for_def mark_disconnected_def
  connection_cleanup_def CMD_UPDATE_REQUEST_def sync_branch_def first_sync_def
  sync_all_hook_def Let_def join_id_eval

lemma listening_run:
  "connection_made listening True = (fst (connection_made listening True), Inr ())"
  "read_loop (fst (connection_made listening True)) [digital_in]
     = (fst (read_loop (fst (connection_made listening True)) [digital_in]), True)"
  by (simp_all add: handler_eval listening_def init_def digital_in_def)

lemma eof_run:
  "handle_connection listening True [digital_in, eof_in]
     = (\<lparr>writer = None, reader = False, available_flag = False, command_queue = [],
         command_event = False,
         digital = [10 \<mapsto> \<lparr>value' = PBool True, last_update = 99, update_count = 1\<rparr>],
         analog = Map.empty, serial = Map.empty, join_update_times = (\<lambda>k. []),
         join_callbacks = Map.empty, global_callbacks = [0],
         sync_all_joins_callback = None, initial_sync_received = False,
         initial_sync_event = False, last_sync_request = 0,
         trace = [Written [0xFD], Notified ''d10'' (ascii ''1'') [],
                  Notified ''system'' (ascii ''disconnected'') [0], WriterClosed,
                  Notified ''system'' (ascii ''disconnected'') [0]]\<rparr>, True)"
  by (simp add: handler_eval listening_def init_def digital_in_def eof_in_def)

text \<open>
  The sample connection: a digital frame for join 10, then end of stream.
\<close>

theorem disconnect_on_eof_witness:
  "read1 eof_in = Got []
   \<and> (\<exists>s1 s2. loop_iteration (fst (read_loop (fst (connection_made listening True)) [digital_in]))
                 eof_in = (s1, False)
        \<and> handle_connection listening True ([digital_in] @ [eof_in]) = (s2, True)
        \<and> \<not> available s1 \<and> \<not> available s2
        \<and> system_events (ascii ''disconnected'') (trace s1) = 1
        \<and> digital s2 10 = Some \<lparr>value' = PBool True, last_update = 99, update_count = 1\<rparr>
        \<and> digital (fst (connection_made s2 True)) = Map.empty
        \<and> analog (fst (connection_made s2 True)) = Map.empty
        \<and> serial (fst (connection_made s2 True)) = Map.empty)"
proof -
  let ?s = "fst (read_loop (fst (connection_made listening True)) [digital_in])"
  have eof: "read1 eof_in = Got []"
    by (simp add: eof_in_def)
  have tr: "system_events (ascii ''disconnected'') (trace ?s) = 0"
    by (simp add: handler_eval listening_def init_def digital_in_def system_events_def)
  have tbl: "digital ?s 10 = Some \<lparr>value' = PBool True, last_update = 99, update_count = 1\<rparr>"
    by (simp add: handler_eval listening_def init_def digital_in_def)
  from disconnect_on_eof [OF listening_run eof] obtain s1 s2 where
    a: "loop_iteration ?s eof_in = (s1, False)"
      "handle_connection listening True ([digital_in] @ [eof_in]) = (s2, True)"
      "\<not> available s1" "\<not> available s2"
      "trace s1 = trace ?s
         @ [Notified ''system'' (ascii ''disconnected'') (callbacks_for ?s ''system'')]"
      "digital s2 = digital ?s"
      "\<forall>ok'. digital (fst (connection_made s2 ok')) = Map.empty
         \<and> analog (fst (connection_made s2 ok')) = Map.empty
         \<and> serial (fst (connection_made s2 ok')) = Map.empty"
    by blast
  have "system_events (ascii ''disconnected'') (trace s1) = 1"
    using a(5) tr by (simp add: system_events_def)
  with eof a tbl show ?thesis by auto
qed

text \<open>
  Claim C3 as stated fails on the sample connection: when the handler has returned, two
  \<^verbatim>\<open>"disconnected"\<close> events have been fired (one by the pass that read end of stream, one by
  the \<^verbatim>\<open>finally\<close> block), and the digital table still holds join 10.
\<close>

theorem disconnect_on_eof_counterexample:
  "system_events (ascii ''disconnected'')
     (trace (fst (handle_connection listening True [digital_in, eof_in]))) = 2
   \<and> digital (fst (handle_connection listening True [digital_in, eof_in])) 10
       = Some \<lparr>value' = PBool True, last_update = 99, update_count = 1\<rparr>"
  by (simp add: eof_run system_events_def)

subsection \<open>Handshake\<close>













end
